theory Spec2Isabelle
  imports Complex_Main "HOL-Library.Multiset" "HOL-Library.Sublist" "HOL-Library.Product_Lexorder"
    "HOL-Library.Char_ord" "HOL-Library.List_Lexorder"
begin

section \<open>JavaScript numbers\<close>

text \<open>
  A TypeScript \<open>number\<close> is an IEEE 754 binary64 value. The model keeps the three non-finite
  values apart and takes a finite value as the real number it stands for. Every arithmetic
  operation computes the exact real result and rounds it to the nearest double (\<open>fl\<close>);
  the special values propagate as IEEE 754 prescribes. The sign of a zero is not kept.
\<close>

datatype jsnum = NaN | NInf | Fin real | PInf

fun isFinite :: "jsnum \<Rightarrow> bool" where
  "isFinite (Fin a) = True"
| "isFinite v = False"

fun isNaN :: "jsnum \<Rightarrow> bool" where
  "isNaN NaN = True"
| "isNaN v = False"

text \<open>Rounding to an integer, halves to the even neighbour.\<close>

definition round_half_even :: "real \<Rightarrow> int" where
  "round_half_even t =
     (if t - of_int \<lfloor>t\<rfloor> < 1 / 2 then \<lfloor>t\<rfloor>
      else if 1 / 2 < t - of_int \<lfloor>t\<rfloor> then \<lfloor>t\<rfloor> + 1
      else if even \<lfloor>t\<rfloor> then \<lfloor>t\<rfloor> else \<lfloor>t\<rfloor> + 1)"

text \<open>The binary exponent of a real other than zero: \<open>2 ^ ilog2 x \<le> \<bar>x\<bar> < 2 ^ (ilog2 x + 1)\<close>.\<close>

definition ilog2 :: "real \<Rightarrow> int" where
  "ilog2 x = \<lfloor>log 2 \<bar>x\<bar>\<rfloor>"

text \<open>
  Rounding a real to binary64, to nearest, ties to even. The doubles around \<open>x\<close> are the
  multiples of \<open>q = 2 ^ (e - 52)\<close>, where \<open>e\<close> is the binary exponent of \<open>x\<close> and at least
  \<open>- 1022\<close> (below \<open>2 ^ - 1022\<close> the doubles are the multiples of \<open>2 ^ - 1074\<close>); a result
  that reaches \<open>2 ^ 1024\<close> is an infinity.
\<close>

definition fl :: "real \<Rightarrow> jsnum" where
  "fl x =
     (if x = 0 then Fin 0
      else (let q = 2 powi (max (ilog2 x) (- 1022) - 52);
                y = of_int (round_half_even (x / q)) * q
            in if 2 ^ 1024 \<le> y then PInf else if y \<le> - (2 ^ 1024) then NInf else Fin y))"

fun jneg :: "jsnum \<Rightarrow> jsnum" where
  "jneg NaN = NaN"
| "jneg NInf = PInf"
| "jneg (Fin a) = Fin (- a)"
| "jneg PInf = NInf"

fun jadd :: "jsnum \<Rightarrow> jsnum \<Rightarrow> jsnum" where
  "jadd (Fin a) (Fin b) = fl (a + b)"
| "jadd NaN v = NaN"
| "jadd v NaN = NaN"
| "jadd PInf NInf = NaN"
| "jadd NInf PInf = NaN"
| "jadd PInf v = PInf"
| "jadd v PInf = PInf"
| "jadd NInf v = NInf"
| "jadd v NInf = NInf"

definition jsub :: "jsnum \<Rightarrow> jsnum \<Rightarrow> jsnum" where
  "jsub a b = jadd a (jneg b)"

fun jmul :: "jsnum \<Rightarrow> jsnum \<Rightarrow> jsnum" where
  "jmul (Fin a) (Fin b) = fl (a * b)"
| "jmul NaN v = NaN"
| "jmul v NaN = NaN"
| "jmul (Fin a) v = (if a = 0 then NaN else if 0 < a then v else jneg v)"
| "jmul v (Fin b) = (if b = 0 then NaN else if 0 < b then v else jneg v)"
| "jmul PInf v = v"
| "jmul NInf v = jneg v"

text \<open>Division; a zero divisor is read as \<open>+0\<close>.\<close>

fun jdiv :: "jsnum \<Rightarrow> jsnum \<Rightarrow> jsnum" where
  "jdiv (Fin a) (Fin b) =
     (if b \<noteq> 0 then fl (a / b) else if a = 0 then NaN else if 0 < a then PInf else NInf)"
| "jdiv NaN v = NaN"
| "jdiv v NaN = NaN"
| "jdiv (Fin a) v = Fin 0"
| "jdiv v (Fin b) = (if 0 \<le> b then v else jneg v)"
| "jdiv v w = NaN"

text \<open>\<open>Math.sqrt\<close>, which is correctly rounded.\<close>

fun jsqrt :: "jsnum \<Rightarrow> jsnum" where
  "jsqrt (Fin a) = (if a < 0 then NaN else fl (sqrt a))"
| "jsqrt PInf = PInf"
| "jsqrt v = NaN"

text \<open>\<open>Math.min\<close> of two numbers.\<close>

fun jmin :: "jsnum \<Rightarrow> jsnum \<Rightarrow> jsnum" where
  "jmin (Fin a) (Fin b) = Fin (min a b)"
| "jmin NaN v = NaN"
| "jmin v NaN = NaN"
| "jmin NInf v = NInf"
| "jmin v NInf = NInf"
| "jmin PInf v = v"
| "jmin v PInf = v"

text \<open>The comparison \<open>a < b\<close>: false as soon as one of the two is \<open>NaN\<close>.\<close>

fun jless :: "jsnum \<Rightarrow> jsnum \<Rightarrow> bool" where
  "jless (Fin a) (Fin b) = (a < b)"
| "jless NaN v = False"
| "jless v NaN = False"
| "jless PInf v = False"
| "jless v NInf = False"
| "jless NInf v = True"
| "jless v PInf = True"

text \<open>
  \<open>Number(v.toFixed(2))\<close>. For a finite \<open>v\<close>, \<open>toFixed\<close> takes the sign off, and for a
  magnitude below \<open>10^21\<close> picks the integer \<open>n\<close> with \<open>n / 100\<close> nearest to the exact value
  of the magnitude, the larger one of two (\<open>toFixed2\<close>); \<open>Number\<close> reads the decimal string
  back as the nearest double. From \<open>10^21\<close> on \<open>toFixed\<close> prints the number itself, which
  reads back unchanged. A non-finite \<open>v\<close> prints as its name, which \<open>Number\<close> reads back.
\<close>

definition toFixed2 :: "real \<Rightarrow> real" where
  "toFixed2 v =
     (if v < 0
      then (if 10 ^ 21 \<le> - v then v else - (of_int \<lfloor>(- v) * 100 + 1 / 2\<rfloor> / 100))
      else (if 10 ^ 21 \<le> v then v else of_int \<lfloor>v * 100 + 1 / 2\<rfloor> / 100))"

fun Number_toFixed2 :: "jsnum \<Rightarrow> jsnum" where
  "Number_toFixed2 (Fin v) = (if 10 ^ 21 \<le> \<bar>v\<bar> then Fin v else fl (toFixed2 v))"
| "Number_toFixed2 v = v"

section \<open>Vectors (three.js \<open>Vector3\<close>)\<close>

datatype Vector3 = Vector3 (vx: jsnum) (vy: jsnum) (vz: jsnum)

definition finiteV :: "Vector3 \<Rightarrow> bool" where
  "finiteV v \<longleftrightarrow> isFinite (vx v) \<and> isFinite (vy v) \<and> isFinite (vz v)"

text \<open>\<open>a.distanceTo(b)\<close> is \<open>Math.sqrt(a.distanceToSquared(b))\<close>.\<close>

definition distanceToSquared :: "Vector3 \<Rightarrow> Vector3 \<Rightarrow> jsnum" where
  "distanceToSquared a b =
     (let dx = jsub (vx a) (vx b); dy = jsub (vy a) (vy b); dz = jsub (vz a) (vz b)
      in jadd (jadd (jmul dx dx) (jmul dy dy)) (jmul dz dz))"

definition distanceTo :: "Vector3 \<Rightarrow> Vector3 \<Rightarrow> jsnum" where
  "distanceTo a b = jsqrt (distanceToSquared a b)"


text \<open>
  \<open>v.lerpVectors(v1, v2, alpha)\<close> sets each component to \<open>v1 + (v2 - v1) * alpha\<close>, three
  operations on doubles.
\<close>

definition lerp :: "jsnum \<Rightarrow> jsnum \<Rightarrow> jsnum \<Rightarrow> jsnum" where
  "lerp a b alpha = jadd a (jmul (jsub b a) alpha)"

definition lerpVectors :: "Vector3 \<Rightarrow> Vector3 \<Rightarrow> jsnum \<Rightarrow> Vector3" where
  "lerpVectors v1 v2 alpha =
     Vector3 (lerp (vx v1) (vx v2) alpha) (lerp (vy v1) (vy v2) alpha) (lerp (vz v1) (vz v2) alpha)"

section \<open>The catalog and the refresh data\<close>

record PlanetData =
  planet_id :: string
  planet_name :: string
  planet_size :: jsnum
  color :: nat
  inclination :: "jsnum option"
  textureMap :: string

record PlanetPosition =
  pos_x :: jsnum
  pos_y :: jsnum

record CoordinateData =
  timestamp :: string
  coord_x :: jsnum
  coord_y :: jsnum
  coord_z :: jsnum

record ApiResponse =
  data :: "string \<rightharpoonup> CoordinateData"
  status :: string

record CameraState =
  position :: Vector3
  target :: Vector3

record PlanetDistance =
  pd_id :: string
  pd_name :: string
  pd_distance :: jsnum
  pd_position :: PlanetPosition

text \<open>A decimal literal of the source is the double nearest to it; \<open>109 / 50\<close> is a division.\<close>

definition PLANETS :: "PlanetData list" where
  "PLANETS =
    [\<lparr>planet_id = ''sun'', planet_name = ''Sun'', planet_size = jdiv (Fin 109) (Fin 50),
       color = 16776960, inclination = Some (Fin 0), textureMap = ''/textures/2k_sun.jpg''\<rparr>,
     \<lparr>planet_id = ''mercury'', planet_name = ''Mercury'', planet_size = fl (383 / 1000),
       color = 8421504, inclination = Some (Fin 7), textureMap = ''/textures/2k_mercury.jpg''\<rparr>,
     \<lparr>planet_id = ''venus'', planet_name = ''Venus'', planet_size = fl (949 / 1000),
       color = 16766720, inclination = Some (fl (34 / 10)), textureMap = ''/textures/2k_venus.jpg''\<rparr>,
     \<lparr>planet_id = ''earth'', planet_name = ''Earth'', planet_size = Fin 1,
       color = 30654, inclination = Some (Fin 0), textureMap = ''/textures/2k_earth.jpg''\<rparr>,
     \<lparr>planet_id = ''mars'', planet_name = ''Mars'', planet_size = fl (532 / 1000),
       color = 16729344, inclination = Some (fl (19 / 10)), textureMap = ''/textures/2k_mars.jpg''\<rparr>,
     \<lparr>planet_id = ''jupiter'', planet_name = ''Jupiter'', planet_size = fl (11209 / 1000),
       color = 16753920, inclination = Some (fl (13 / 10)), textureMap = ''/textures/2k_jupiter.jpg''\<rparr>,
     \<lparr>planet_id = ''saturn'', planet_name = ''Saturn'', planet_size = fl (9449 / 1000),
       color = 16766720, inclination = Some (Fin (5 / 2)), textureMap = ''/textures/2k_saturn.jpg''\<rparr>,
     \<lparr>planet_id = ''uranus'', planet_name = ''Uranus'', planet_size = fl (4007 / 1000),
       color = 4251856, inclination = Some (fl (8 / 10)), textureMap = ''/textures/2k_uranus.jpg''\<rparr>,
     \<lparr>planet_id = ''neptune'', planet_name = ''Neptune'', planet_size = fl (3883 / 1000),
       color = 255, inclination = Some (fl (18 / 10)), textureMap = ''/textures/2k_neptune.jpg''\<rparr>]"

definition SCALE_FACTOR :: jsnum where
  "SCALE_FACTOR = Fin 10"


text \<open>\<open>planetData?.data[k]\<close>: nothing while no response has arrived, or when the response has no entry for \<open>k\<close>.\<close>

definition coordsOf :: "ApiResponse option \<Rightarrow> string \<Rightarrow> CoordinateData option" where
  "coordsOf planetData k = (case planetData of None \<Rightarrow> None | Some r \<Rightarrow> data r k)"

section \<open>Scene set-up\<close>

text \<open>
  The position given to the mesh of a planet other than the sun: the coordinates scaled
  when the response has an entry for the planet (an entry is an object, so the test
  \<open>if (planetData?.data[planet.id])\<close> asks for nothing but its presence), the fallback
  otherwise. Only the position of a mesh is kept here; its geometry, material and rotation
  belong to rendering.
\<close>

definition meshPosition :: "ApiResponse option \<Rightarrow> PlanetData \<Rightarrow> Vector3" where
  "meshPosition planetData planet =
     (case coordsOf planetData (planet_id planet) of
        Some coords \<Rightarrow>
          Vector3 (jmul (coord_x coords) SCALE_FACTOR)
                  (jmul (coord_y coords) SCALE_FACTOR)
                  (jmul (coord_z coords) SCALE_FACTOR)
      | None \<Rightarrow> Vector3 (Fin 10) (Fin 0) (Fin 0))"

text \<open>
  The sun is created first, and stays where a new mesh is: at the origin. The other bodies
  of the catalog (\<open>PLANETS.slice(1)\<close>) follow, each stored under its id.
\<close>

definition sunPosition :: Vector3 where
  "sunPosition = Vector3 (Fin 0) (Fin 0) (Fin 0)"

definition planetMeshes :: "ApiResponse option \<Rightarrow> (string \<rightharpoonup> Vector3)" where
  "planetMeshes planetData =
     fold (\<lambda>planet m. m(planet_id planet \<mapsto> meshPosition planetData planet))
       (tl PLANETS) [''sun'' \<mapsto> sunPosition]"

text \<open>\<open>draggableCube.position.set(20, 20, 20)\<close>.\<close>

definition draggableCube_initial :: Vector3 where
  "draggableCube_initial = Vector3 (Fin 20) (Fin 20) (Fin 20)"

section \<open>The frame callback \<open>animate\<close>\<close>

datatype error = TypeError

text \<open>
  The pixel position of a label from the projected vector: \<open>vector\<close> is the world position
  of the mesh after \<open>vector.project(camera)\<close>, in normalized device coordinates;
  \<open>innerWidth\<close> and \<open>innerHeight\<close> are the integer sizes of the window.
\<close>

definition labelPosition :: "Vector3 \<Rightarrow> nat \<Rightarrow> nat \<Rightarrow> PlanetPosition" where
  "labelPosition vector innerWidth innerHeight =
     \<lparr>pos_x = jmul (jadd (jmul (vx vector) (Fin (1 / 2))) (Fin (1 / 2))) (Fin (real innerWidth)),
      pos_y = jmul (jadd (jmul (jneg (vy vector)) (Fin (1 / 2))) (Fin (1 / 2))) (Fin (real innerHeight))\<rparr>"

text \<open>
  The body of \<open>PLANETS.forEach\<close>. \<open>planetMeshes.get\<close> of an id that was never stored is
  \<open>undefined\<close>, and reading \<open>mesh.matrixWorld\<close> then throws. The meshes hang directly
  under the scene, so the world position of a mesh is its position; the projection of the
  camera is the parameter \<open>project\<close>.
\<close>

definition planetEntry ::
  "(string \<rightharpoonup> Vector3) \<Rightarrow> Vector3 \<Rightarrow> (Vector3 \<Rightarrow> Vector3) \<Rightarrow> nat \<Rightarrow> nat \<Rightarrow> PlanetData
     \<Rightarrow> error + PlanetDistance" where
  "planetEntry meshes cube project innerWidth innerHeight planet =
     (case meshes (planet_id planet) of
        None \<Rightarrow> Inl TypeError
      | Some mesh \<Rightarrow>
          Inr \<lparr>pd_id = planet_id planet, pd_name = planet_name planet,
               pd_distance = Number_toFixed2 (jdiv (distanceTo cube mesh) SCALE_FACTOR),
               pd_position = labelPosition (project mesh) innerWidth innerHeight\<rparr>)"

fun forEach_push ::
  "('a \<Rightarrow> error + 'b) \<Rightarrow> 'a list \<Rightarrow> 'b list \<Rightarrow> error + 'b list" where
  "forEach_push f [] acc = Inr acc"
| "forEach_push f (p # ps) acc =
     (case f p of Inl e \<Rightarrow> Inl e | Inr d \<Rightarrow> forEach_push f ps (acc @ [d]))"

text \<open>
  \<open>newDistances.sort((a, b) => a.distance - b.distance)\<close>. \<open>Array.prototype.sort\<close> is
  stable; it puts \<open>a\<close> after \<open>b\<close> when the comparator's result is above zero, and reads
  \<open>NaN\<close> as zero. With a consistent comparator every stable sort returns the same
  array; the model inserts from the right, each element in front of the first one it is
  not above.
\<close>

definition compareFn :: "PlanetDistance \<Rightarrow> PlanetDistance \<Rightarrow> jsnum" where
  "compareFn a b = jsub (pd_distance a) (pd_distance b)"

fun positive :: "jsnum \<Rightarrow> bool" where
  "positive (Fin a) = (0 < a)"
| "positive PInf = True"
| "positive v = False"

fun insert_sorted :: "('a \<Rightarrow> 'a \<Rightarrow> jsnum) \<Rightarrow> 'a \<Rightarrow> 'a list \<Rightarrow> 'a list" where
  "insert_sorted cmp a [] = [a]"
| "insert_sorted cmp a (b # bs) =
     (if positive (cmp a b) then b # insert_sorted cmp a bs else a # b # bs)"

definition sort_array :: "('a \<Rightarrow> 'a \<Rightarrow> jsnum) \<Rightarrow> 'a list \<Rightarrow> 'a list" where
  "sort_array cmp xs = foldr (insert_sorted cmp) xs []"

record Frame =
  distances :: "PlanetDistance list"
  planetPositions :: "string \<rightharpoonup> PlanetPosition"

text \<open>
  What one call of \<open>animate\<close> publishes through \<open>setDistances\<close> and
  \<open>setPlanetPositions\<close>, from the meshes, the position of the draggable cube, the
  camera's projection and the window's size. What comes before in the callback
  (\<open>controls.update()\<close>, the rotation of the meshes, \<open>renderer.render\<close>) belongs to
  rendering and is left out.
\<close>

definition animate ::
  "(string \<rightharpoonup> Vector3) \<Rightarrow> Vector3 \<Rightarrow> (Vector3 \<Rightarrow> Vector3) \<Rightarrow> nat \<Rightarrow> nat \<Rightarrow> error + Frame" where
  "animate meshes cube project innerWidth innerHeight =
     (case forEach_push (planetEntry meshes cube project innerWidth innerHeight) PLANETS [] of
        Inl e \<Rightarrow> Inl e
      | Inr newDistances \<Rightarrow>
          (let sorted = sort_array compareFn newDistances
           in Inr \<lparr>distances = sorted,
                   planetPositions =
                     fold (\<lambda>planet m. m(pd_id planet \<mapsto> pd_position planet)) sorted Map.empty\<rparr>))"

text \<open>\<open>distances.find(p => p.id === k)?.distance\<close>, as the panels read a body's distance.\<close>

definition publishedDistance :: "PlanetDistance list \<Rightarrow> string \<Rightarrow> jsnum option" where
  "publishedDistance ds k = map_option pd_distance (find (\<lambda>p. pd_id p = k) ds)"

section \<open>Camera flights\<close>

text \<open>
  The constants an \<open>animateCamera\<close> closure captures. \<open>Date.now()\<close> is an integer number
  of milliseconds.
\<close>

record Flight =
  startPosition :: Vector3
  startTarget :: Vector3
  cameraTargetPosition :: Vector3
  targetPosition :: Vector3
  startTime :: int

definition duration :: jsnum where
  "duration = Fin 1000"

text \<open>\<open>elapsed = Date.now() - startTime\<close> and \<open>progress = Math.min(elapsed / duration, 1)\<close>.\<close>

definition elapsed :: "Flight \<Rightarrow> int \<Rightarrow> jsnum" where
  "elapsed flight now = jsub (Fin (of_int now)) (Fin (of_int (startTime flight)))"

definition progress :: "Flight \<Rightarrow> int \<Rightarrow> jsnum" where
  "progress flight now = jmin (jdiv (elapsed flight now) duration) (Fin 1)"

text \<open>
  \<open>easeProgress = 1 - Math.pow(1 - progress, 3)\<close>. The language leaves the precision of
  \<open>Math.pow\<close> to the implementation, so it is the parameter \<open>pow\<close>.
\<close>

definition easeProgress :: "(jsnum \<Rightarrow> jsnum \<Rightarrow> jsnum) \<Rightarrow> Flight \<Rightarrow> int \<Rightarrow> jsnum" where
  "easeProgress pow flight now = jsub (Fin 1) (pow (jsub (Fin 1) (progress flight now)) (Fin 3))"

text \<open>The two \<open>lerpVectors\<close> assignments of \<open>animateCamera\<close>.\<close>

definition flightState :: "(jsnum \<Rightarrow> jsnum \<Rightarrow> jsnum) \<Rightarrow> Flight \<Rightarrow> int \<Rightarrow> CameraState" where
  "flightState pow flight now =
     \<lparr>position = lerpVectors (startPosition flight) (cameraTargetPosition flight)
                   (easeProgress pow flight now),
      target = lerpVectors (startTarget flight) (targetPosition flight)
                 (easeProgress pow flight now)\<rparr>"






section \<open>Refreshing the data\<close>

text \<open>
  The state of the component that a refresh touches: the React states \<open>planetData\<close> and
  \<open>cameraState\<close>, whether the mount point exists, and the live \<open>OrbitControls\<close> object.
\<close>

record Component =
  planetData :: "ApiResponse option"
  cameraState :: "CameraState option"
  mounted :: bool
  liveControls :: "CameraState option"

definition defaultCamera :: CameraState where
  "defaultCamera =
     \<lparr>position = Vector3 (Fin 0) (Fin 50) (Fin 100), target = Vector3 (Fin 0) (Fin 0) (Fin 0)\<rparr>"

text \<open>
  The scene effect, as far as the camera goes. The new camera is put at the stored position
  when there is a stored camera state, at \<open>(0, 50, 100)\<close> otherwise. The constructor of
  \<open>OrbitControls\<close> starts with the target at the origin and ends with a call of
  \<open>update()\<close>; then the stored target is copied into the controls; the effect ends with
  the first call of \<open>animate\<close>, which begins with \<open>controls.update()\<close>.
\<close>

definition sceneEffect :: "(CameraState \<Rightarrow> CameraState) \<Rightarrow> Component \<Rightarrow> Component" where
  "sceneEffect update s =
     (if \<not> mounted s then s
      else (let camera_position = (case cameraState s of
                                     Some c \<Rightarrow> position c
                                   | None \<Rightarrow> position defaultCamera);
                constructed = update \<lparr>position = camera_position, target = target defaultCamera\<rparr>;
                controls = (case cameraState s of
                              Some c \<Rightarrow> constructed\<lparr>target := target c\<rparr>
                            | None \<Rightarrow> constructed)
            in s\<lparr>liveControls := Some (update controls)\<rparr>))"

text \<open>
  \<open>fetchPlanetData\<close> up to its \<open>await\<close>: the camera state is stored when controls exist.
  \<open>cameraState\<close> is a dependency of the scene effect, which runs again.
\<close>

definition fetchPlanetData_begin :: "(CameraState \<Rightarrow> CameraState) \<Rightarrow> Component \<Rightarrow> Component" where
  "fetchPlanetData_begin update s =
     (case liveControls s of
        None \<Rightarrow> s
      | Some controls \<Rightarrow>
          sceneEffect update
            (s\<lparr>cameraState := Some \<lparr>position = position controls, target = target controls\<rparr>\<rparr>))"

text \<open>The response arrives: \<open>setPlanetData(data)\<close>, and the scene effect runs again.\<close>

definition fetchPlanetData_resolve ::
  "(CameraState \<Rightarrow> CameraState) \<Rightarrow> ApiResponse \<Rightarrow> Component \<Rightarrow> Component" where
  "fetchPlanetData_resolve update response s = sceneEffect update (s\<lparr>planetData := Some response\<rparr>)"

text \<open>The user, or a flight, moves the camera of the live controls.\<close>

definition moveCamera :: "CameraState \<Rightarrow> Component \<Rightarrow> Component" where
  "moveCamera c s = (case liveControls s of None \<Rightarrow> s | Some controls \<Rightarrow> s\<lparr>liveControls := Some c\<rparr>)"

section \<open>The specification's words\<close>

text \<open>Rounding to two decimals, halves away from zero.\<close>

definition round_half_away_2 :: "real \<Rightarrow> real" where
  "round_half_away_2 v = sgn v * of_int \<lfloor>\<bar>v\<bar> * 100 + 1 / 2\<rfloor> / 100"

definition clamp :: "real \<Rightarrow> real \<Rightarrow> real \<Rightarrow> real" where
  "clamp v lo hi = max lo (min hi v)"

text \<open>The Euclidean norm of \<open>a - b\<close>, on real components.\<close>

definition euclideanNorm :: "real \<Rightarrow> real \<Rightarrow> real \<Rightarrow> real \<Rightarrow> real \<Rightarrow> real \<Rightarrow> real" where
  "euclideanNorm ax ay az bx by bz = sqrt ((ax - bx)\<^sup>2 + (ay - by)\<^sup>2 + (az - bz)\<^sup>2)"

section \<open>Notions for the statements\<close>

text \<open>A real that is a double: rounding leaves it as it is.\<close>

definition isDouble :: "real \<Rightarrow> bool" where
  "isDouble a \<longleftrightarrow> fl a = Fin a"

text \<open>Every finite double is an integer multiple of the smallest positive one.\<close>

definition onGrid :: "real \<Rightarrow> bool" where
  "onGrid y \<longleftrightarrow> (\<exists>n::int. y = of_int n * 2 powi (- 1074))"

text \<open>The comparison \<open>a <= b\<close> of two numbers: false as soon as one of them is \<open>NaN\<close>.\<close>

fun jless_eq :: "jsnum \<Rightarrow> jsnum \<Rightarrow> bool" where
  "jless_eq (Fin a) (Fin b) = (a \<le> b)"
| "jless_eq NaN v = False"
| "jless_eq v NaN = False"
| "jless_eq NInf v = True"
| "jless_eq v PInf = True"
| "jless_eq v w = False"

text \<open>A linearly ordered key that orders the numbers other than \<open>NaN\<close> as \<open>jless_eq\<close> does.\<close>

fun jkey :: "jsnum \<Rightarrow> int \<times> real" where
  "jkey NaN = (2, 0)"
| "jkey NInf = (- 1, 0)"
| "jkey (Fin a) = (0, a)"
| "jkey PInf = (1, 0)"

text \<open>Where the mesh of a body of the catalog stands after the scene set-up.\<close>

definition scenePosition :: "ApiResponse option \<Rightarrow> PlanetData \<Rightarrow> Vector3" where
  "scenePosition pd planet =
     (if planet_id planet = ''sun'' then sunPosition else meshPosition pd planet)"

text \<open>The entry \<open>animate\<close> pushes for a body of the catalog.\<close>

definition catalogEntry ::
  "ApiResponse option \<Rightarrow> Vector3 \<Rightarrow> (Vector3 \<Rightarrow> Vector3) \<Rightarrow> nat \<Rightarrow> nat \<Rightarrow> PlanetData
     \<Rightarrow> PlanetDistance" where
  "catalogEntry pd cube project w h planet =
     \<lparr>pd_id = planet_id planet, pd_name = planet_name planet,
      pd_distance = Number_toFixed2 (jdiv (distanceTo cube (scenePosition pd planet)) SCALE_FACTOR),
      pd_position = labelPosition (project (scenePosition pd planet)) w h\<rparr>"

text \<open>The published ranking of a frame; empty when \<open>animate\<close> threw.\<close>

definition ranking :: "error + Frame \<Rightarrow> PlanetDistance list" where
  "ranking r = (case r of Inl e \<Rightarrow> [] | Inr fr \<Rightarrow> distances fr)"

text \<open>A number that is zero or above, \<open>Infinity\<close> included.\<close>

fun nonneg :: "jsnum \<Rightarrow> bool" where
  "nonneg (Fin a) = (0 \<le> a)"
| "nonneg PInf = True"
| "nonneg v = False"

text \<open>A number a distance can be: \<open>Infinity\<close>, or a double that is zero or above.\<close>

fun gridded :: "jsnum \<Rightarrow> bool" where
  "gridded (Fin a) = (0 \<le> a \<and> onGrid a)"
| "gridded PInf = True"
| "gridded v = False"

text \<open>A vector of doubles, each below \<open>2 ^ 1022\<close> in magnitude.\<close>

definition doubleV :: "Vector3 \<Rightarrow> bool" where
  "doubleV v \<longleftrightarrow>
     (\<exists>a b c. v = Vector3 (Fin a) (Fin b) (Fin c) \<and> isDouble a \<and> isDouble b \<and> isDouble c \<and>
        \<bar>a\<bar> < 2 ^ 1022 \<and> \<bar>b\<bar> < 2 ^ 1022 \<and> \<bar>c\<bar> < 2 ^ 1022)"

text \<open>\<open>v1 + (v2 - v1)\<close>, component by component, in double arithmetic.\<close>

definition arrival :: "Vector3 \<Rightarrow> Vector3 \<Rightarrow> Vector3" where
  "arrival v1 v2 =
     Vector3 (jadd (vx v1) (jsub (vx v2) (vx v1))) (jadd (vy v1) (jsub (vy v2) (vy v1)))
             (jadd (vz v1) (jsub (vz v2) (vz v1)))"

text \<open>
  The controls a scene rebuild leaves for a stored camera state \<open>c\<close>: the constructor's
  \<open>update()\<close> at the stored position with the target at the origin, the stored target
  copied in, and the \<open>update()\<close> of the first frame.
\<close>

definition rebuilt :: "(CameraState \<Rightarrow> CameraState) \<Rightarrow> CameraState \<Rightarrow> CameraState" where
  "rebuilt update c =
     update ((update \<lparr>position = position c, target = Vector3 (Fin 0) (Fin 0) (Fin 0)\<rparr>)\<lparr>target := target c\<rparr>)"

section \<open>Rounding to a double\<close>

lemma round_half_even_error: "\<bar>of_int (round_half_even t) - t\<bar> \<le> 1 / 2"
  unfolding round_half_even_def by (auto simp add: abs_if) linarith+

lemma round_half_even_of_int [simp]: "round_half_even (of_int n) = n"
  by (simp add: round_half_even_def)

lemma round_half_even_ge: "of_int n \<le> t \<Longrightarrow> n \<le> round_half_even t"
proof -
  assume "of_int n \<le> t"
  then have "n \<le> \<lfloor>t\<rfloor>"
    by (simp add: le_floor_iff)
  then show ?thesis
    unfolding round_half_even_def by auto
qed

lemma round_half_even_le: "t \<le> of_int n \<Longrightarrow> round_half_even t \<le> n"
proof -
  assume a: "t \<le> of_int n"
  have f: "\<lfloor>t\<rfloor> \<le> n"
    using a by (simp add: floor_le_iff)
  show ?thesis
  proof (cases "t = of_int \<lfloor>t\<rfloor>")
    case True
    then have "t - of_int \<lfloor>t\<rfloor> = 0"
      by simp
    then have "round_half_even t = \<lfloor>t\<rfloor>"
      unfolding round_half_even_def by simp
    with f show ?thesis by simp
  next
    case False
    then have "of_int \<lfloor>t\<rfloor> < t"
      by (metis of_int_floor_le order_less_le)
    then have "real_of_int \<lfloor>t\<rfloor> < of_int n"
      using a by linarith
    then have "\<lfloor>t\<rfloor> < n"
      by simp
    then show ?thesis
      unfolding round_half_even_def by auto
  qed
qed

lemma powr_powi_2: "(2::real) powr real_of_int e = 2 powi e"
  by (simp add: powr_real_of_int')

lemma powr_powi_2_Suc: "(2::real) powr (real_of_int e + 1) = 2 powi (e + 1)"
  using powr_powi_2 [of "e + 1"] by simp

lemma ilog2_unique:
  assumes "2 powi e \<le> \<bar>x\<bar>" and "\<bar>x\<bar> < 2 powi (e + 1)"
  shows "ilog2 x = e"
proof -
  have "(0::real) < 2 powi e"
    by simp
  then have pos: "0 < \<bar>x\<bar>"
    using assms(1) by linarith
  have "(2::real) powr (real_of_int e) \<le> \<bar>x\<bar> \<and> \<bar>x\<bar> < (2::real) powr (real_of_int e + 1)"
    unfolding powr_powi_2 powr_powi_2_Suc using assms by simp
  then have "\<lfloor>log 2 \<bar>x\<bar>\<rfloor> = e"
    using floor_log_eq_powr_iff [of "\<bar>x\<bar>" 2 e] pos by simp
  then show ?thesis
    by (simp add: ilog2_def)
qed

lemma ilog2_bounds:
  assumes "x \<noteq> 0"
  shows "2 powi (ilog2 x) \<le> \<bar>x\<bar>" and "\<bar>x\<bar> < 2 powi (ilog2 x + 1)"
proof -
  have pos: "0 < \<bar>x\<bar>" using assms by simp
  have "(2::real) powr (real_of_int (ilog2 x)) \<le> \<bar>x\<bar> \<and> \<bar>x\<bar> < (2::real) powr (real_of_int (ilog2 x) + 1)"
    using floor_log_eq_powr_iff [of "\<bar>x\<bar>" 2 "ilog2 x"] pos by (simp add: ilog2_def)
  then show "2 powi (ilog2 x) \<le> \<bar>x\<bar>" and "\<bar>x\<bar> < 2 powi (ilog2 x + 1)"
    unfolding powr_powi_2 powr_powi_2_Suc by simp_all
qed

lemma two_powi_pos [simp]: "(0::real) < 2 powi e"
  by simp

lemma two_powi_Suc: "(2::real) powi (e + 1) = 2 * 2 powi e"
  by (simp add: power_int_add)

lemma two_powi_split: "(2::real) powi (a + b) = 2 powi a * 2 powi b"
  by (simp add: power_int_add)

lemma two_powi_mono: "a \<le> b \<Longrightarrow> (2::real) powi a \<le> 2 powi b"
  by (rule power_int_increasing) simp_all

lemma two_powi_1024: "(2::real) powi 1024 = 2 ^ 1024"
  by (simp add: power_int_def)

lemma round_mult_bounds:
  assumes q: "0 < q" and x: "\<bar>x\<bar> < of_int N * q"
  shows "\<bar>of_int (round_half_even (x / q)) * q\<bar> \<le> of_int N * q"
proof -
  have "\<bar>x / q\<bar> = \<bar>x\<bar> / q"
    using q by simp
  then have "\<bar>x / q\<bar> < of_int N"
    using q x by (simp add: pos_divide_less_eq)
  then have "x / q \<le> of_int N" and "of_int (- N) \<le> x / q"
    by (simp_all add: abs_if split: if_splits)
  then have "round_half_even (x / q) \<le> N" and "- N \<le> round_half_even (x / q)"
    by (simp_all add: round_half_even_le round_half_even_ge)
  then have "\<bar>real_of_int (round_half_even (x / q))\<bar> \<le> of_int N"
    by linarith
  then have "\<bar>real_of_int (round_half_even (x / q))\<bar> * q \<le> of_int N * q"
    using q by (simp add: mult_right_mono)
  then show ?thesis
    using q by (simp add: abs_mult)
qed

lemma two_powi_53: "(2::real) powi 53 = of_int (2 ^ 53)"
  by (simp add: power_int_def)

lemma two_powi_ulp: "(2::real) powi (e + 1) = of_int (2 ^ 53) * 2 powi (e - 52)"
proof -
  have "e + 1 = (e - 52) + 53"
    by arith
  then have "(2::real) powi (e + 1) = 2 powi ((e - 52) + 53)"
    by (rule arg_cong)
  also have "\<dots> = 2 powi (e - 52) * 2 powi 53"
    by (rule two_powi_split)
  finally show ?thesis
    by (simp only: two_powi_53 mult.commute)
qed

lemma fl_eval:
  assumes lo: "2 powi e \<le> \<bar>x\<bar>" and hi: "\<bar>x\<bar> < 2 powi (e + 1)"
    and e1: "- 1022 \<le> e" and e2: "e \<le> 1022"
  shows "fl x = Fin (of_int (round_half_even (x / 2 powi (e - 52))) * 2 powi (e - 52))"
proof -
  let ?q = "(2::real) powi (e - 52)"
  let ?y = "of_int (round_half_even (x / ?q)) * ?q"
  have il: "ilog2 x = e"
    using lo hi by (rule ilog2_unique)
  have x0: "x \<noteq> 0"
  proof
    assume "x = 0"
    then have "(2::real) powi e \<le> 0"
      using lo by simp
    then show False
      using two_powi_pos [of e] by linarith
  qed
  have "\<bar>x\<bar> < of_int (2 ^ 53) * ?q"
    using hi by (simp only: two_powi_ulp)
  then have b: "\<bar>?y\<bar> \<le> of_int (2 ^ 53) * ?q"
    by (intro round_mult_bounds) simp_all
  have "of_int (2 ^ 53) * ?q = 2 powi (e + 1)"
    by (simp only: two_powi_ulp)
  also have "\<dots> \<le> 2 powi 1023"
    using e2 by (intro two_powi_mono) simp
  also have "\<dots> < 2 ^ 1024"
    by (simp add: power_int_def)
  finally have "\<bar>?y\<bar> < 2 ^ 1024"
    using b by linarith
  then have "\<not> 2 ^ 1024 \<le> ?y" and "\<not> ?y \<le> - (2 ^ 1024)"
    by linarith+
  then show ?thesis
    using x0 e1 by (simp add: fl_def il Let_def max_def)
qed

lemma fl_not_NaN [simp]: "\<not> isNaN (fl x)"
  by (simp add: fl_def Let_def)

lemma fl_0 [simp]: "fl 0 = Fin 0"
  by (simp add: fl_def)

lemma fl_nonneg: "0 \<le> x \<Longrightarrow> nonneg (fl x)"
proof -
  assume x: "0 \<le> x"
  let ?q = "(2::real) powi (max (ilog2 x) (- 1022) - 52)"
  have "of_int 0 \<le> x / ?q"
    using x by simp
  then have "0 \<le> round_half_even (x / ?q)"
    by (rule round_half_even_ge)
  then have "0 \<le> of_int (round_half_even (x / ?q)) * ?q"
    by simp
  then show ?thesis
    by (simp add: fl_def Let_def)
qed

lemma fl_nonpos: "x \<le> 0 \<Longrightarrow> \<not> positive (fl x)"
proof -
  assume x: "x \<le> 0"
  let ?q = "(2::real) powi (max (ilog2 x) (- 1022) - 52)"
  have "x / ?q \<le> of_int 0"
    using x by (simp add: divide_nonpos_pos)
  then have "round_half_even (x / ?q) \<le> 0"
    by (rule round_half_even_le)
  then have "of_int (round_half_even (x / ?q)) * ?q \<le> 0"
    by (simp add: mult_nonpos_nonneg)
  then show ?thesis
    by (simp add: fl_def Let_def)
qed

lemma fl_positive: "2 powi (- 1074) \<le> x \<Longrightarrow> positive (fl x)"
proof -
  assume x: "2 powi (- 1074) \<le> x"
  let ?E = "max (ilog2 x) (- 1022)"
  let ?q = "(2::real) powi (?E - 52)"
  have x0: "0 < x"
    using x two_powi_pos [of "- 1074"] by linarith
  have "?q \<le> x"
  proof (cases "- 1022 \<le> ilog2 x")
    case True
    then have "?q \<le> 2 powi (ilog2 x)"
      by (intro two_powi_mono) simp
    also have "\<dots> \<le> \<bar>x\<bar>"
      using x0 by (intro ilog2_bounds) simp
    finally show ?thesis
      using x0 by simp
  next
    case False
    then have "?E - 52 = - 1074"
      by simp
    then show ?thesis
      using x by simp
  qed
  then have "of_int 1 \<le> x / ?q"
    by (simp add: pos_le_divide_eq)
  then have "1 \<le> round_half_even (x / ?q)"
    by (rule round_half_even_ge)
  then have "0 < of_int (round_half_even (x / ?q)) * ?q"
    by simp
  then show ?thesis
    using x0 by (simp add: fl_def Let_def)
qed

lemma fl_grid: "fl x = Fin y \<Longrightarrow> onGrid y"
proof -
  assume a: "fl x = Fin y"
  let ?E = "max (ilog2 x) (- 1022)"
  let ?q = "(2::real) powi (?E - 52)"
  show ?thesis
  proof (cases "x = 0")
    case True
    then have "y = of_int 0 * 2 powi (- 1074)"
      using a by simp
    then show ?thesis
      unfolding onGrid_def by blast
  next
    case False
    then have y: "y = of_int (round_half_even (x / ?q)) * ?q"
      using a by (simp add: fl_def Let_def split: if_splits)
    have "0 \<le> ?E + 1022"
      by simp
    then obtain k :: nat where k: "?E + 1022 = int k"
      using nonneg_int_cases by blast
    have "?E - 52 = int k + (- 1074)"
      using k by arith
    then have "?q = 2 powi (int k) * 2 powi (- 1074)"
      by (simp only: two_powi_split)
    then have "?q = of_int (2 ^ k) * 2 powi (- 1074)"
      by simp
    then have "y = of_int (round_half_even (x / ?q) * 2 ^ k) * 2 powi (- 1074)"
      using y by simp
    then show ?thesis
      unfolding onGrid_def by blast
  qed
qed

lemma fl_rel_error:
  assumes lo: "2 powi (- 1022) \<le> \<bar>x\<bar>" and hi: "\<bar>x\<bar> < 2 powi 1023"
  shows "\<exists>y. fl x = Fin y \<and> \<bar>y - x\<bar> \<le> \<bar>x\<bar> / 2 ^ 53"
proof -
  have x0: "x \<noteq> 0"
    using lo two_powi_pos [of "- 1022"] by auto
  let ?e = "ilog2 x"
  let ?q = "(2::real) powi (?e - 52)"
  have b: "2 powi ?e \<le> \<bar>x\<bar>" "\<bar>x\<bar> < 2 powi (?e + 1)"
    using x0 by (rule ilog2_bounds)+
  have e1: "- 1022 \<le> ?e"
  proof (rule ccontr)
    assume "\<not> - 1022 \<le> ?e"
    then have "?e + 1 \<le> - 1022" by simp
    then have "(2::real) powi (?e + 1) \<le> 2 powi (- 1022)"
      by (rule two_powi_mono)
    then show False using b(2) lo by linarith
  qed
  have e2: "?e \<le> 1022"
  proof (rule ccontr)
    assume "\<not> ?e \<le> 1022"
    then have "1023 \<le> ?e" by simp
    then have "(2::real) powi 1023 \<le> 2 powi ?e"
      by (rule two_powi_mono)
    then show False using b(1) hi by linarith
  qed
  have f: "fl x = Fin (of_int (round_half_even (x / ?q)) * ?q)"
    using b e1 e2 by (rule fl_eval)
  have "of_int (round_half_even (x / ?q)) * ?q - x = (of_int (round_half_even (x / ?q)) - x / ?q) * ?q"
    by (simp add: left_diff_distrib)
  then have "\<bar>of_int (round_half_even (x / ?q)) * ?q - x\<bar> = \<bar>of_int (round_half_even (x / ?q)) - x / ?q\<bar> * ?q"
    by (simp only: abs_mult) simp
  also have "\<dots> \<le> 1 / 2 * ?q"
    by (intro mult_right_mono round_half_even_error) simp
  also have "\<dots> = 2 powi ?e / 2 ^ 53"
  proof -
    have "(2::real) powi ?e = 2 powi ((?e - 52) + 52)"
      by simp
    also have "\<dots> = ?q * 2 powi 52"
      by (rule two_powi_split)
    also have "\<dots> = ?q * 2 ^ 52"
      by (simp add: power_int_def)
    finally show ?thesis
      by simp
  qed
  also have "\<dots> \<le> \<bar>x\<bar> / 2 ^ 53"
    using b(1) by (simp add: divide_right_mono)
  finally show ?thesis
    using f by blast
qed

lemma two_powi_strict_mono_rev: "(2::real) powi a < 2 powi b \<Longrightarrow> a < b"
proof (rule ccontr)
  assume l: "(2::real) powi a < 2 powi b" and "\<not> a < b"
  then have "b \<le> a" by simp
  then have "(2::real) powi b \<le> 2 powi a"
    by (rule two_powi_mono)
  with l show False by linarith
qed

lemma fl_dyadic_bounded:
  assumes m: "\<bar>m\<bar> < 2 ^ 53" and k1: "- 1074 \<le> k"
    and b: "\<bar>real_of_int m * 2 powi k\<bar> < 2 ^ 1024"
  shows "fl (of_int m * 2 powi k) = Fin (of_int m * 2 powi k)"
proof (cases "m = 0")
  case True
  then show ?thesis by simp
next
  case False
  define x where "x = real_of_int m * 2 powi k"
  define E where "E = max (ilog2 x) (- 1022)"
  define q where "q = (2::real) powi (E - 52)"
  have x0: "x \<noteq> 0"
    using False by (simp add: x_def)
  have ax: "\<bar>x\<bar> = of_int \<bar>m\<bar> * 2 powi k"
    by (simp add: x_def abs_mult)
  have "real_of_int \<bar>m\<bar> < of_int (2 ^ 53)"
    using m by (simp only: of_int_less_iff)
  then have lt: "\<bar>x\<bar> < of_int (2 ^ 53) * 2 powi k"
    unfolding ax by (simp add: mult_strict_right_mono)
  have le: "E - 52 \<le> k"
  proof (cases "- 1022 \<le> ilog2 x")
    case True
    have "2 powi (ilog2 x) \<le> \<bar>x\<bar>"
      using x0 by (rule ilog2_bounds)
    also have "\<dots> < of_int (2 ^ 53) * 2 powi k"
      by (rule lt)
    also have "\<dots> = 2 powi (k + 53)"
      by (simp only: two_powi_split two_powi_53 mult.commute)
    finally have "ilog2 x < k + 53"
      by (rule two_powi_strict_mono_rev)
    then show ?thesis
      using True by (simp add: E_def)
  next
    case False
    then show ?thesis
      using k1 by (simp add: E_def)
  qed
  then obtain j :: nat where j: "k - (E - 52) = int j"
    using nonneg_int_cases [of "k - (E - 52)"] by auto
  have "k = (E - 52) + int j"
    using j by arith
  then have "(2::real) powi k = 2 powi ((E - 52) + int j)"
    by (rule arg_cong)
  also have "\<dots> = q * 2 powi (int j)"
    unfolding q_def by (rule two_powi_split)
  finally have pk: "(2::real) powi k = q * of_int (2 ^ j)"
    by simp
  have q0: "q \<noteq> 0"
    by (simp add: q_def)
  have xq: "x = of_int (m * 2 ^ j) * q"
    unfolding x_def pk by simp
  then have "x / q = of_int (m * 2 ^ j)"
    using q0 by simp
  then have r: "round_half_even (x / q) = m * 2 ^ j"
    by (simp only: round_half_even_of_int)
  have y: "of_int (round_half_even (x / q)) * q = x"
    unfolding r using xq by simp
  have "\<bar>x\<bar> < 2 ^ 1024"
    using b by (simp only: x_def)
  then have "\<not> 2 ^ 1024 \<le> x" and "\<not> x \<le> - (2 ^ 1024)"
    by linarith+
  then have "fl x = Fin x"
    using x0 y by (simp add: fl_def Let_def E_def [symmetric] q_def [symmetric])
  then show ?thesis
    by (simp only: x_def)
qed

lemma fl_dyadic:
  assumes m: "\<bar>m\<bar> < 2 ^ 53" and k1: "- 1074 \<le> k" and k2: "k \<le> 971"
  shows "fl (of_int m * 2 powi k) = Fin (of_int m * 2 powi k)"
proof -
  have "real_of_int \<bar>m\<bar> < of_int (2 ^ 53)"
    using m by (simp only: of_int_less_iff)
  then have "real_of_int \<bar>m\<bar> * 2 powi k < of_int (2 ^ 53) * 2 powi k"
    by (simp add: mult_strict_right_mono)
  also have "of_int (2 ^ 53) * (2::real) powi k \<le> of_int (2 ^ 53) * 2 powi 971"
    using k2 by (intro mult_left_mono two_powi_mono) simp_all
  also have "\<dots> = 2 ^ 1024"
    by (simp add: power_int_def)
  finally have "\<bar>real_of_int m * 2 powi k\<bar> < 2 ^ 1024"
    by (simp add: abs_mult)
  with m k1 show ?thesis
    by (rule fl_dyadic_bounded)
qed

lemma isDouble_of_int: "\<bar>n\<bar> < 2 ^ 53 \<Longrightarrow> isDouble (of_int n)"
  using fl_dyadic [of n 0] by (simp add: isDouble_def)

lemma fl_of_int: "\<bar>n\<bar> < 2 ^ 53 \<Longrightarrow> fl (of_int n) = Fin (of_int n)"
  using fl_dyadic [of n 0] by simp

lemma fl_numeral [simp]: "(numeral w :: int) < 2 ^ 53 \<Longrightarrow> fl (numeral w) = Fin (numeral w)"
  using fl_of_int [of "numeral w"] by simp

lemma fl_neg_numeral [simp]: "(numeral w :: int) < 2 ^ 53 \<Longrightarrow> fl (- numeral w) = Fin (- numeral w)"
  using fl_of_int [of "- numeral w"] by simp

lemma fl_1 [simp]: "fl 1 = Fin 1"
  using fl_of_int [of 1] by simp

lemma fl_frac: "\<bar>m\<bar> < 2 ^ 53 \<Longrightarrow> j \<le> 1074 \<Longrightarrow> fl (of_int m / 2 ^ j) = Fin (of_int m / 2 ^ j)"
  using fl_dyadic [of m "- int j"] by (simp add: power_int_minus field_simps)

lemma two_powi_1023: "(2::real) powi 1023 < 2 ^ 1024"
  by (simp add: power_int_def)

text \<open>The rounded value of a real other than zero, with the bound its exponent gives.\<close>

lemma fl_cases:
  assumes x0: "x \<noteq> 0"
  shows "\<exists>n E. - 1022 \<le> E \<and> ilog2 x \<le> E \<and> \<bar>n\<bar> \<le> 2 ^ 53 \<and>
           n = round_half_even (x / 2 powi (E - 52)) \<and>
           E = max (ilog2 x) (- 1022) \<and>
           fl x = (let y = of_int n * 2 powi (E - 52)
                   in if 2 ^ 1024 \<le> y then PInf else if y \<le> - (2 ^ 1024) then NInf else Fin y)"
proof -
  define E where "E = max (ilog2 x) (- 1022)"
  define q where "q = (2::real) powi (E - 52)"
  define n where "n = round_half_even (x / q)"
  have q0: "0 < q"
    by (simp add: q_def)
  have "\<bar>x\<bar> < 2 powi (ilog2 x + 1)"
    using x0 by (rule ilog2_bounds)
  also have "\<dots> \<le> 2 powi (E + 1)"
    by (intro two_powi_mono) (simp add: E_def)
  also have "\<dots> = of_int (2 ^ 53) * q"
    unfolding q_def by (rule two_powi_ulp)
  finally have "\<bar>x\<bar> < of_int (2 ^ 53) * q" .
  then have "x / q \<le> of_int (2 ^ 53)" and "of_int (- (2 ^ 53)) \<le> x / q"
    using q0 by (simp_all add: pos_divide_le_eq pos_le_divide_eq abs_if split: if_splits)
  then have "n \<le> 2 ^ 53" and "- (2 ^ 53) \<le> n"
    unfolding n_def by (simp_all only: round_half_even_le round_half_even_ge)
  then have "\<bar>n\<bar> \<le> 2 ^ 53"
    by linarith
  moreover have "fl x = (let y = of_int n * 2 powi (E - 52)
                   in if 2 ^ 1024 \<le> y then PInf else if y \<le> - (2 ^ 1024) then NInf else Fin y)"
    using x0 by (simp add: fl_def Let_def E_def n_def q_def)
  ultimately show ?thesis
    unfolding n_def q_def E_def by (intro exI conjI) simp_all
qed

lemma fl_finite:
  assumes "\<bar>x\<bar> < 2 powi 1023"
  shows "isFinite (fl x)"
proof (cases "x = 0")
  case True
  then show ?thesis by simp
next
  case False
  define E where "E = max (ilog2 x) (- 1022)"
  define q where "q = (2::real) powi (E - 52)"
  have "2 powi (ilog2 x) \<le> \<bar>x\<bar>"
    using False by (rule ilog2_bounds)
  then have "(2::real) powi (ilog2 x) < 2 powi 1023"
    using assms by linarith
  then have "ilog2 x < 1023"
    by (rule two_powi_strict_mono_rev)
  then have E: "E \<le> 1022"
    by (simp add: E_def)
  have "\<bar>x\<bar> < 2 powi (ilog2 x + 1)"
    using False by (rule ilog2_bounds)
  also have "\<dots> \<le> 2 powi (E + 1)"
    by (intro two_powi_mono) (simp add: E_def)
  also have "\<dots> = of_int (2 ^ 53) * q"
    unfolding q_def by (rule two_powi_ulp)
  finally have "\<bar>x\<bar> < of_int (2 ^ 53) * q" .
  then have "\<bar>of_int (round_half_even (x / q)) * q\<bar> \<le> of_int (2 ^ 53) * q"
    by (intro round_mult_bounds) (simp_all add: q_def)
  also have "of_int (2 ^ 53) * q = 2 powi (E + 1)"
    unfolding q_def by (simp only: two_powi_ulp)
  also have "\<dots> \<le> 2 powi 1023"
    using E by (intro two_powi_mono) simp
  also have "\<dots> < 2 ^ 1024"
    by (rule two_powi_1023)
  finally have "\<bar>of_int (round_half_even (x / q)) * q\<bar> < 2 ^ 1024" .
  then have "\<not> 2 ^ 1024 \<le> of_int (round_half_even (x / q)) * q"
    and "\<not> of_int (round_half_even (x / q)) * q \<le> - (2 ^ 1024)"
    by linarith+
  then show ?thesis
    using False by (simp add: fl_def Let_def E_def [symmetric] q_def [symmetric])
qed

lemma two_powi_52_53: "(2::real) ^ 53 * 2 powi (E - 52) = 2 ^ 52 * 2 powi (E - 51)"
proof -
  have "E - 51 = (E - 52) + 1"
    by arith
  then have "(2::real) powi (E - 51) = 2 powi ((E - 52) + 1)"
    by (rule arg_cong)
  also have "\<dots> = 2 * 2 powi (E - 52)"
    by (rule two_powi_Suc)
  finally show ?thesis
    by simp
qed



lemma fl_idem:
  assumes "fl x = Fin y"
  shows "fl y = Fin y"
proof (cases "x = 0")
  case True
  then show ?thesis using assms by simp
next
  case False
  then obtain n E where E: "- 1022 \<le> E" and n: "\<bar>n\<bar> \<le> 2 ^ 53"
    and f: "fl x = (let y = of_int n * 2 powi (E - 52)
                   in if 2 ^ 1024 \<le> y then PInf else if y \<le> - (2 ^ 1024) then NInf else Fin y)"
    using fl_cases [of x] by blast
  have y: "y = of_int n * 2 powi (E - 52)"
    using f assms by (simp add: Let_def split: if_splits)
  have b: "\<bar>of_int n * (2::real) powi (E - 52)\<bar> < 2 ^ 1024"
    using f assms by (simp add: Let_def split: if_splits)
  consider "\<bar>n\<bar> < 2 ^ 53" | "n = 2 ^ 53" | "n = - (2 ^ 53)"
    using n by linarith
  then show ?thesis
  proof cases
    case 1
    have "fl (of_int n * 2 powi (E - 52)) = Fin (of_int n * 2 powi (E - 52))"
      using 1 _ b by (rule fl_dyadic_bounded) (use E in simp)
    then show ?thesis
      by (simp only: y)
  next
    case 2
    have e: "real_of_int n * 2 powi (E - 52) = of_int (2 ^ 52) * 2 powi (E - 51)"
      using two_powi_52_53 [of E] by (simp add: 2)
    have "fl (of_int (2 ^ 52) * 2 powi (E - 51)) = Fin (of_int (2 ^ 52) * 2 powi (E - 51))"
      by (rule fl_dyadic_bounded) (use E b e in simp_all)
    then show ?thesis
      by (simp only: y e)
  next
    case 3
    have e: "real_of_int n * 2 powi (E - 52) = of_int (- (2 ^ 52)) * 2 powi (E - 51)"
      using two_powi_52_53 [of E] by (simp add: 3)
    have "fl (of_int (- (2 ^ 52)) * 2 powi (E - 51)) = Fin (of_int (- (2 ^ 52)) * 2 powi (E - 51))"
      by (rule fl_dyadic_bounded) (use E b e in simp_all)
    then show ?thesis
      by (simp only: y e)
  qed
qed

text \<open>Rounding does not cross 1, which is a double.\<close>

lemma fl_ge_1:
  assumes "1 \<le> x"
  shows "fl x = PInf \<or> (\<exists>y. fl x = Fin y \<and> 1 \<le> y)"
proof -
  have x0: "x \<noteq> 0" using assms by simp
  define E where "E = max (ilog2 x) (- 1022)"
  define q where "q = (2::real) powi (E - 52)"
  have "(2::real) powi 0 \<le> \<bar>x\<bar>"
    using assms by simp
  also have "\<bar>x\<bar> < 2 powi (ilog2 x + 1)"
    using x0 by (rule ilog2_bounds)
  finally have "0 < ilog2 x + 1"
    by (rule two_powi_strict_mono_rev)
  then have il: "0 \<le> ilog2 x" by simp
  then have E: "E = ilog2 x"
    by (simp add: E_def)
  have q0: "0 < q" by (simp add: q_def)
  have s: "(2::real) powi E = of_int (2 ^ 52) * q"
  proof -
    have "E = (E - 52) + 52" by simp
    then have "(2::real) powi E = 2 powi ((E - 52) + 52)"
      by (rule arg_cong)
    also have "\<dots> = q * 2 powi 52"
      unfolding q_def by (rule two_powi_split)
    finally show ?thesis
      by (simp add: power_int_def)
  qed
  have "2 powi E \<le> \<bar>x\<bar>"
    unfolding E using x0 by (rule ilog2_bounds)
  then have "of_int (2 ^ 52) * q \<le> x"
    using assms s by simp
  then have "of_int (2 ^ 52) \<le> x / q"
    using q0 by (simp add: pos_le_divide_eq)
  then have "2 ^ 52 \<le> round_half_even (x / q)"
    by (rule round_half_even_ge)
  then have "real_of_int (2 ^ 52) \<le> of_int (round_half_even (x / q))"
    by (simp only: of_int_le_iff)
  then have "of_int (2 ^ 52) * q \<le> of_int (round_half_even (x / q)) * q"
    using q0 by (simp only: mult_le_cancel_right) simp
  moreover have "(1::real) \<le> 2 powi E"
    using il E two_powi_mono [of 0 E] by simp
  ultimately have y1: "1 \<le> of_int (round_half_even (x / q)) * q"
    using s by linarith
  then have "\<not> of_int (round_half_even (x / q)) * q \<le> - (2 ^ 1024)"
    by (smt (verit) zero_le_power)
  then show ?thesis
    using x0 y1 by (simp add: fl_def Let_def E_def [symmetric] q_def [symmetric])
qed

lemma jmin_fl_ge_1: "1 \<le> x \<Longrightarrow> jmin (fl x) (Fin 1) = Fin 1"
  using fl_ge_1 [of x] by auto

lemma jless_fl_ge_1: "1 \<le> x \<Longrightarrow> \<not> jless (fl x) (Fin 1)"
  using fl_ge_1 [of x] by auto



section \<open>The meshes of the catalog\<close>

lemma planetMeshes_unfold:
  "planetMeshes pd k =
     (if k = ''neptune'' then Some (meshPosition pd (PLANETS ! 8))
      else if k = ''uranus'' then Some (meshPosition pd (PLANETS ! 7))
      else if k = ''saturn'' then Some (meshPosition pd (PLANETS ! 6))
      else if k = ''jupiter'' then Some (meshPosition pd (PLANETS ! 5))
      else if k = ''mars'' then Some (meshPosition pd (PLANETS ! 4))
      else if k = ''earth'' then Some (meshPosition pd (PLANETS ! 3))
      else if k = ''venus'' then Some (meshPosition pd (PLANETS ! 2))
      else if k = ''mercury'' then Some (meshPosition pd (PLANETS ! 1))
      else if k = ''sun'' then Some sunPosition else None)"
  by (simp add: planetMeshes_def PLANETS_def)

lemma planetMeshes_catalog:
  "planet \<in> set PLANETS \<Longrightarrow> planetMeshes pd (planet_id planet) = Some (scenePosition pd planet)"
proof -
  have "\<forall>planet\<in>set PLANETS. planetMeshes pd (planet_id planet) = Some (scenePosition pd planet)"
    unfolding planetMeshes_unfold scenePosition_def
    by (simp add: PLANETS_def)
  then show "planet \<in> set PLANETS \<Longrightarrow> planetMeshes pd (planet_id planet) = Some (scenePosition pd planet)"
    by blast
qed

lemma planetMeshes_planet:
  assumes "planet \<in> set PLANETS" and "planet_id planet \<noteq> ''sun''"
  shows "planetMeshes pd (planet_id planet) = Some (meshPosition pd planet)"
  using planetMeshes_catalog [OF assms(1), of pd] assms(2) by (simp add: scenePosition_def)

lemma meshPosition_Some:
  "coordsOf pd (planet_id planet) = Some c \<Longrightarrow>
   meshPosition pd planet =
     Vector3 (jmul (coord_x c) (Fin 10)) (jmul (coord_y c) (Fin 10)) (jmul (coord_z c) (Fin 10))"
  by (simp add: meshPosition_def SCALE_FACTOR_def)

lemma meshPosition_None:
  "coordsOf pd (planet_id planet) = None \<Longrightarrow>
   meshPosition pd planet = Vector3 (Fin 10) (Fin 0) (Fin 0)"
  by (simp add: meshPosition_def)

lemma jmul_10_finite: "isFinite (jmul v (Fin 10)) \<Longrightarrow> isFinite v"
  by (cases v) simp_all

lemma jmul_10_bounded: "\<bar>a\<bar> < 2 ^ 1019 \<Longrightarrow> isFinite (jmul (Fin a) (Fin 10))"
proof -
  assume "\<bar>a\<bar> < 2 ^ 1019"
  then have "\<bar>a * 10\<bar> < 16 * 2 ^ 1019"
    by (simp add: abs_mult)
  also have "\<dots> = 2 powi 1023"
    by (simp add: power_int_def)
  finally show ?thesis
    by (simp add: fl_finite)
qed

lemma jmul_10_nonfinite: "\<not> isFinite v \<Longrightarrow> jmul v (Fin 10) = v"
  by (cases v) simp_all

text \<open>
  C8, as the code has it. For every body of the catalog other than the sun: when the
  refresh data has a coordinate for it, its scene position is the coordinate times 10,
  component by component (on finite components, the double nearest to the real product);
  when the data has
  none, its scene position is the fallback (10, 0, 0), and the mesh is there all the same,
  so nothing is raised. The sun is not placed from the data: its mesh stands at the origin.
\<close>

theorem scene_position_of_planet:
  "planet \<in> set PLANETS \<Longrightarrow> planet_id planet \<noteq> ''sun'' \<Longrightarrow>
   (\<forall>c. coordsOf pd (planet_id planet) = Some c \<longrightarrow>
      planetMeshes pd (planet_id planet) =
        Some (Vector3 (jmul (coord_x c) (Fin 10)) (jmul (coord_y c) (Fin 10)) (jmul (coord_z c) (Fin 10))))
   \<and> (\<forall>t a b c. coordsOf pd (planet_id planet) =
          Some \<lparr>timestamp = t, coord_x = Fin a, coord_y = Fin b, coord_z = Fin c\<rparr> \<longrightarrow>
      planetMeshes pd (planet_id planet) = Some (Vector3 (fl (a * 10)) (fl (b * 10)) (fl (c * 10))))
   \<and> (coordsOf pd (planet_id planet) = None \<longrightarrow>
      planetMeshes pd (planet_id planet) = Some (Vector3 (Fin 10) (Fin 0) (Fin 0)))
   \<and> planetMeshes pd ''sun'' = Some (Vector3 (Fin 0) (Fin 0) (Fin 0))"
proof -
  assume cat: "planet \<in> set PLANETS" and ns: "planet_id planet \<noteq> ''sun''"
  have m: "planetMeshes pd (planet_id planet) = Some (meshPosition pd planet)"
    using cat ns by (rule planetMeshes_planet)
  have sun: "planetMeshes pd ''sun'' = Some (Vector3 (Fin 0) (Fin 0) (Fin 0))"
    by (simp add: planetMeshes_unfold sunPosition_def)
  show ?thesis
    unfolding m using sun by (auto simp add: meshPosition_Some meshPosition_None)
qed

text \<open>
  The theorem at a response that has Mars at (1.5, -0.5, 0) and nothing for the Earth:
  Mars stands at (15, -5, 0), the Earth at the fallback.
\<close>

theorem scene_position_of_planet_witness:
  "planetMeshes (Some \<lparr>data = [''mars'' \<mapsto> \<lparr>timestamp = ''2024-01-01T00:00:00.000Z'',
        coord_x = Fin (3 / 2), coord_y = Fin (- 1 / 2), coord_z = Fin 0\<rparr>], status = ''success''\<rparr>) ''mars''
     = Some (Vector3 (Fin 15) (Fin (- 5)) (Fin 0))
   \<and> planetMeshes (Some \<lparr>data = [''mars'' \<mapsto> \<lparr>timestamp = ''2024-01-01T00:00:00.000Z'',
        coord_x = Fin (3 / 2), coord_y = Fin (- 1 / 2), coord_z = Fin 0\<rparr>], status = ''success''\<rparr>) ''earth''
     = Some (Vector3 (Fin 10) (Fin 0) (Fin 0))"
proof -
  let ?pd = "Some \<lparr>data = [''mars'' \<mapsto> \<lparr>timestamp = ''2024-01-01T00:00:00.000Z'',
        coord_x = Fin (3 / 2), coord_y = Fin (- 1 / 2), coord_z = Fin 0\<rparr>], status = ''success''\<rparr>"
  have mars: "PLANETS ! 4 \<in> set PLANETS" and earth: "PLANETS ! 3 \<in> set PLANETS"
    by (simp_all add: PLANETS_def)
  have "planetMeshes ?pd ''mars'' = Some (Vector3 (Fin 15) (Fin (- 5)) (Fin 0))"
    using scene_position_of_planet [OF mars, of ?pd]
    by (simp add: PLANETS_def coordsOf_def)
  moreover have "planetMeshes ?pd ''earth'' = Some (Vector3 (Fin 10) (Fin 0) (Fin 0))"
    using scene_position_of_planet [OF earth, of ?pd]
    by (simp add: PLANETS_def coordsOf_def)
  ultimately show ?thesis by simp
qed

text \<open>
  C8 as stated fails at the sun. Before any response has arrived the data has no
  coordinate for the sun, and the sun does not stand at the fallback; and when a response
  gives the sun the coordinate (1, 2, 3), the sun stands at the origin, not at (10, 20, 30).
\<close>

theorem scene_position_sun_counterexample:
  "coordsOf None ''sun'' = None
   \<and> planetMeshes None ''sun'' \<noteq> Some (Vector3 (Fin 10) (Fin 0) (Fin 0))
   \<and> coordsOf (Some \<lparr>data = [''sun'' \<mapsto> \<lparr>timestamp = ''2024-01-01T00:00:00.000Z'',
        coord_x = Fin 1, coord_y = Fin 2, coord_z = Fin 3\<rparr>], status = ''success''\<rparr>) ''sun''
      = Some \<lparr>timestamp = ''2024-01-01T00:00:00.000Z'', coord_x = Fin 1, coord_y = Fin 2, coord_z = Fin 3\<rparr>
   \<and> planetMeshes (Some \<lparr>data = [''sun'' \<mapsto> \<lparr>timestamp = ''2024-01-01T00:00:00.000Z'',
        coord_x = Fin 1, coord_y = Fin 2, coord_z = Fin 3\<rparr>], status = ''success''\<rparr>) ''sun''
      = Some (Vector3 (Fin 0) (Fin 0) (Fin 0))"
  by (simp add: planetMeshes_unfold sunPosition_def coordsOf_def)

text \<open>
  C7, as the code has it. The scene set-up does not look at the components of a supplied
  coordinate: for every body of the catalog other than the sun that has a coordinate, a
  component of the scene position is finite only when the coordinate's component is, it is
  finite when the coordinate's component is finite and below \<open>2 ^ 1019\<close> in magnitude
  (ten times a larger one can overflow), and a \<open>NaN\<close> or infinite component arrives
  in the scene position as it is.
\<close>

theorem nonfinite_coordinate_propagates:
  "planet \<in> set PLANETS \<Longrightarrow> planet_id planet \<noteq> ''sun'' \<Longrightarrow>
   coordsOf pd (planet_id planet) = Some c \<Longrightarrow>
   (\<exists>m. planetMeshes pd (planet_id planet) = Some m
      \<and> (isFinite (vx m) \<longrightarrow> isFinite (coord_x c))
      \<and> (isFinite (vy m) \<longrightarrow> isFinite (coord_y c))
      \<and> (isFinite (vz m) \<longrightarrow> isFinite (coord_z c))
      \<and> (\<forall>a. coord_x c = Fin a \<longrightarrow> \<bar>a\<bar> < 2 ^ 1019 \<longrightarrow> isFinite (vx m))
      \<and> (\<forall>a. coord_y c = Fin a \<longrightarrow> \<bar>a\<bar> < 2 ^ 1019 \<longrightarrow> isFinite (vy m))
      \<and> (\<forall>a. coord_z c = Fin a \<longrightarrow> \<bar>a\<bar> < 2 ^ 1019 \<longrightarrow> isFinite (vz m))
      \<and> (\<not> isFinite (coord_x c) \<longrightarrow> vx m = coord_x c)
      \<and> (\<not> isFinite (coord_y c) \<longrightarrow> vy m = coord_y c)
      \<and> (\<not> isFinite (coord_z c) \<longrightarrow> vz m = coord_z c))"
proof -
  assume cat: "planet \<in> set PLANETS" and ns: "planet_id planet \<noteq> ''sun''"
    and c: "coordsOf pd (planet_id planet) = Some c"
  let ?m = "Vector3 (jmul (coord_x c) (Fin 10)) (jmul (coord_y c) (Fin 10)) (jmul (coord_z c) (Fin 10))"
  have "planetMeshes pd (planet_id planet) = Some (meshPosition pd planet)"
    using cat ns by (rule planetMeshes_planet)
  then have m: "planetMeshes pd (planet_id planet) = Some ?m"
    by (simp only: meshPosition_Some [OF c])
  have "isFinite (vx ?m) \<longrightarrow> isFinite (coord_x c)"
    and "isFinite (vy ?m) \<longrightarrow> isFinite (coord_y c)"
    and "isFinite (vz ?m) \<longrightarrow> isFinite (coord_z c)"
    by (simp_all add: jmul_10_finite del: jmul.simps)
  moreover have "\<forall>a. coord_x c = Fin a \<longrightarrow> \<bar>a\<bar> < 2 ^ 1019 \<longrightarrow> isFinite (vx ?m)"
    and "\<forall>a. coord_y c = Fin a \<longrightarrow> \<bar>a\<bar> < 2 ^ 1019 \<longrightarrow> isFinite (vy ?m)"
    and "\<forall>a. coord_z c = Fin a \<longrightarrow> \<bar>a\<bar> < 2 ^ 1019 \<longrightarrow> isFinite (vz ?m)"
    by (simp_all add: jmul_10_bounded del: jmul.simps)
  moreover have "\<not> isFinite (coord_x c) \<longrightarrow> vx ?m = coord_x c"
    and "\<not> isFinite (coord_y c) \<longrightarrow> vy ?m = coord_y c"
    and "\<not> isFinite (coord_z c) \<longrightarrow> vz ?m = coord_z c"
    by (simp_all add: jmul_10_nonfinite del: jmul.simps)
  ultimately show ?thesis
    using m by blast
qed

text \<open>The theorem at a response that has Mars at (-Infinity, NaN, 2).\<close>

theorem nonfinite_coordinate_propagates_witness:
  "\<exists>m. planetMeshes (Some \<lparr>data = [''mars'' \<mapsto> \<lparr>timestamp = ''2024-01-01T00:00:00.000Z'',
        coord_x = NInf, coord_y = NaN, coord_z = Fin 2\<rparr>], status = ''success''\<rparr>) ''mars'' = Some m
     \<and> vx m = NInf \<and> vy m = NaN \<and> isFinite (vz m)"
proof -
  let ?c = "\<lparr>timestamp = ''2024-01-01T00:00:00.000Z'', coord_x = NInf, coord_y = NaN, coord_z = Fin 2\<rparr>"
  let ?pd = "Some \<lparr>data = [''mars'' \<mapsto> ?c], status = ''success''\<rparr>"
  have mars: "PLANETS ! 4 \<in> set PLANETS"
    by (simp add: PLANETS_def)
  have id: "planet_id (PLANETS ! 4) = ''mars''"
    by (simp add: PLANETS_def)
  have "planet_id (PLANETS ! 4) \<noteq> ''sun''"
    by (simp add: id)
  moreover have "coordsOf ?pd (planet_id (PLANETS ! 4)) = Some ?c"
    by (simp add: id coordsOf_def)
  ultimately show ?thesis
    using nonfinite_coordinate_propagates [OF mars, of ?pd ?c] by (auto simp add: id)
qed

text \<open>
  C7 as stated fails: a response that has Mars at (Infinity, 0, 0), as the JSON number
  \<open>1e999\<close> parses, puts Mars at (Infinity, 0, 0), not at the fallback; and a \<open>NaN\<close>
  component does the same.
\<close>

theorem nonfinite_coordinate_counterexample:
  "planetMeshes (Some \<lparr>data = [''mars'' \<mapsto> \<lparr>timestamp = ''2024-01-01T00:00:00.000Z'',
        coord_x = PInf, coord_y = Fin 0, coord_z = Fin 0\<rparr>], status = ''success''\<rparr>) ''mars''
     = Some (Vector3 PInf (Fin 0) (Fin 0))
   \<and> planetMeshes (Some \<lparr>data = [''mars'' \<mapsto> \<lparr>timestamp = ''2024-01-01T00:00:00.000Z'',
        coord_x = NaN, coord_y = Fin 0, coord_z = Fin 0\<rparr>], status = ''success''\<rparr>) ''mars''
     = Some (Vector3 NaN (Fin 0) (Fin 0))"
  by (simp add: planetMeshes_unfold PLANETS_def meshPosition_def coordsOf_def SCALE_FACTOR_def)

section \<open>What \<open>animate\<close> publishes\<close>

lemma forEach_push_map:
  "\<forall>p \<in> set ps. f p = Inr (g p) \<Longrightarrow> forEach_push f ps acc = Inr (acc @ map g ps)"
  by (induction ps arbitrary: acc) simp_all

lemma planetEntry_catalog:
  "planet \<in> set PLANETS \<Longrightarrow>
   planetEntry (planetMeshes pd) cube project w h planet = Inr (catalogEntry pd cube project w h planet)"
  by (simp add: planetEntry_def catalogEntry_def planetMeshes_catalog)

lemma newDistances_catalog:
  "forEach_push (planetEntry (planetMeshes pd) cube project w h) PLANETS [] =
     Inr (map (catalogEntry pd cube project w h) PLANETS)"
  using forEach_push_map [of PLANETS "planetEntry (planetMeshes pd) cube project w h"
      "catalogEntry pd cube project w h" "[]"]
  by (simp add: planetEntry_catalog)

lemma animate_catalog:
  "animate (planetMeshes pd) cube project w h =
     Inr \<lparr>distances = sort_array compareFn (map (catalogEntry pd cube project w h) PLANETS),
          planetPositions =
            fold (\<lambda>planet m. m(pd_id planet \<mapsto> pd_position planet))
              (sort_array compareFn (map (catalogEntry pd cube project w h) PLANETS)) Map.empty\<rparr>"
  by (simp add: animate_def newDistances_catalog Let_def)

lemma ranking_animate:
  "ranking (animate (planetMeshes pd) cube project w h) =
     sort_array compareFn (map (catalogEntry pd cube project w h) PLANETS)"
  by (simp add: ranking_def animate_catalog)

lemma mset_insert_sorted: "mset (insert_sorted cmp a bs) = add_mset a (mset bs)"
  by (induction bs) simp_all

lemma mset_sort_array: "mset (sort_array cmp xs) = mset xs"
  by (induction xs) (simp_all add: sort_array_def mset_insert_sorted)

lemma set_sort_array: "set (sort_array cmp xs) = set xs"
  using mset_sort_array [of cmp xs] by (metis set_mset_mset)

lemma catalog_ids_distinct: "distinct (map planet_id PLANETS)"
  by (simp add: PLANETS_def)

lemma catalogEntry_ids:
  "map pd_id (map (catalogEntry pd cube project w h) PLANETS) = map planet_id PLANETS"
  by (simp add: catalogEntry_def comp_def)

lemma mset_ranked_ids:
  "mset (map pd_id (sort_array compareFn (map (catalogEntry pd cube project w h) PLANETS))) =
     mset (map planet_id PLANETS)"
proof -
  have "mset (map pd_id (sort_array compareFn (map (catalogEntry pd cube project w h) PLANETS))) =
      image_mset pd_id (mset (sort_array compareFn (map (catalogEntry pd cube project w h) PLANETS)))"
    by (simp only: mset_map)
  also have "\<dots> = image_mset pd_id (mset (map (catalogEntry pd cube project w h) PLANETS))"
    by (simp only: mset_sort_array)
  also have "\<dots> = mset (map pd_id (map (catalogEntry pd cube project w h) PLANETS))"
    by (simp only: mset_map)
  finally show ?thesis
    by (simp only: catalogEntry_ids)
qed

lemma distinct_ranked_ids:
  "distinct (map pd_id (sort_array compareFn (map (catalogEntry pd cube project w h) PLANETS)))"
  using mset_ranked_ids [of pd cube project w h] catalog_ids_distinct
  by (metis mset_eq_imp_distinct_iff)

lemma catalogEntry_ranked:
  "planet \<in> set PLANETS \<Longrightarrow>
   catalogEntry pd cube project w h planet \<in>
     set (sort_array compareFn (map (catalogEntry pd cube project w h) PLANETS))"
  by (simp add: set_sort_array)

lemma find_distinct_key:
  "distinct (map f xs) \<Longrightarrow> e \<in> set xs \<Longrightarrow> find (\<lambda>p. f p = f e) xs = Some e"
  by (induction xs) auto

lemma fold_upd_other:
  "k \<notin> f ` set xs \<Longrightarrow> fold (\<lambda>p m. m(f p \<mapsto> g p)) xs m0 k = m0 k"
  by (induction xs arbitrary: m0) simp_all

lemma fold_upd_distinct:
  "distinct (map f xs) \<Longrightarrow> e \<in> set xs \<Longrightarrow> fold (\<lambda>p m. m(f p \<mapsto> g p)) xs m0 (f e) = Some (g e)"
proof (induction xs arbitrary: m0)
  case Nil
  then show ?case by simp
next
  case (Cons x xs)
  show ?case
  proof (cases "e = x")
    case True
    then have "f x \<notin> f ` set xs"
      using Cons.prems(1) by simp
    then have "fold (\<lambda>p m. m(f p \<mapsto> g p)) xs (m0(f x \<mapsto> g x)) (f x) = (m0(f x \<mapsto> g x)) (f x)"
      by (rule fold_upd_other)
    then have "fold (\<lambda>p m. m(f p \<mapsto> g p)) xs (m0(f x \<mapsto> g x)) (f x) = Some (g x)"
      by (simp only: fun_upd_same)
    then show ?thesis
      unfolding True by (simp only: fold_simps comp_apply)
  next
    case False
    then have "e \<in> set xs" and "distinct (map f xs)"
      using Cons.prems by simp_all
    then have "fold (\<lambda>p m. m(f p \<mapsto> g p)) xs (m0(f x \<mapsto> g x)) (f e) = Some (g e)"
      by (intro Cons.IH)
    then show ?thesis
      by (simp only: fold_simps comp_apply)
  qed
qed

lemma find_ranked:
  assumes "planet \<in> set PLANETS"
  shows "find (\<lambda>p. pd_id p = planet_id planet)
      (sort_array compareFn (map (catalogEntry pd cube project w h) PLANETS)) =
    Some (catalogEntry pd cube project w h planet)"
proof -
  have "find (\<lambda>p. pd_id p = pd_id (catalogEntry pd cube project w h planet))
      (sort_array compareFn (map (catalogEntry pd cube project w h) PLANETS)) =
    Some (catalogEntry pd cube project w h planet)"
    using distinct_ranked_ids catalogEntry_ranked [OF assms] by (rule find_distinct_key)
  then show ?thesis
    by (simp add: catalogEntry_def)
qed

lemma planetPositions_ranked:
  assumes "planet \<in> set PLANETS"
  shows "fold (\<lambda>planet m. m(pd_id planet \<mapsto> pd_position planet))
      (sort_array compareFn (map (catalogEntry pd cube project w h) PLANETS)) Map.empty (planet_id planet) =
    Some (pd_position (catalogEntry pd cube project w h planet))"
proof -
  have "fold (\<lambda>planet m. m(pd_id planet \<mapsto> pd_position planet))
      (sort_array compareFn (map (catalogEntry pd cube project w h) PLANETS)) Map.empty
      (pd_id (catalogEntry pd cube project w h planet)) =
    Some (pd_position (catalogEntry pd cube project w h planet))"
    using distinct_ranked_ids catalogEntry_ranked [OF assms] by (rule fold_upd_distinct)
  then show ?thesis
    by (simp add: catalogEntry_def)
qed

lemma publishedDistance_catalog:
  assumes "planet \<in> set PLANETS"
  shows "publishedDistance (sort_array compareFn (map (catalogEntry pd cube project w h) PLANETS))
      (planet_id planet) =
    Some (Number_toFixed2 (jdiv (distanceTo cube (scenePosition pd planet)) (Fin 10)))"
  by (simp add: publishedDistance_def find_ranked [OF assms] catalogEntry_def SCALE_FACTOR_def)

lemma scenePosition_unfold:
  "scenePosition pd planet =
     (if planet_id planet = ''sun'' then Vector3 (Fin 0) (Fin 0) (Fin 0)
      else case coordsOf pd (planet_id planet) of
             None \<Rightarrow> Vector3 (Fin 10) (Fin 0) (Fin 0)
           | Some c \<Rightarrow> Vector3 (jmul (coord_x c) (Fin 10)) (jmul (coord_y c) (Fin 10))
                         (jmul (coord_z c) (Fin 10)))"
  by (simp add: scenePosition_def sunPosition_def meshPosition_def SCALE_FACTOR_def
      split: option.split)

section \<open>The first frame\<close>

lemma fl_rel_error_mid:
  assumes "1 / 1024 \<le> x" and "x \<le> 1024"
  shows "\<exists>y. fl x = Fin y \<and> \<bar>y - x\<bar> \<le> x / 2 ^ 53"
proof -
  have x0: "0 < x"
    using assms(1) by simp
  have "(2::real) powi (- 1022) \<le> 2 powi (- 10)"
    by (rule two_powi_mono) simp
  moreover have "(2::real) powi (- 10) = 1 / 1024"
    by (simp add: power_int_def power_divide)
  ultimately have "2 powi (- 1022) \<le> \<bar>x\<bar>"
    using assms(1) x0 by linarith
  moreover have "(2::real) powi 11 \<le> 2 powi 1023"
    by (rule two_powi_mono) simp
  then have "\<bar>x\<bar> < 2 powi 1023"
    using assms(2) x0 by (simp add: power_int_def)
  ultimately have "\<exists>y. fl x = Fin y \<and> \<bar>y - x\<bar> \<le> \<bar>x\<bar> / 2 ^ 53"
    by (rule fl_rel_error)
  then show ?thesis
    using assms(1) by simp
qed

lemma sqrt_1200_bounds: "3464 / 100 \<le> sqrt 1200" "sqrt 1200 < 34642 / 1000"
proof -
  show "3464 / 100 \<le> sqrt 1200"
    by (rule real_le_rsqrt) (simp add: power2_eq_square)
  show "sqrt 1200 < 34642 / 1000"
    by (rule real_less_lsqrt) (simp_all add: power2_eq_square)
qed

text \<open>
  The distance of the sun in the first frame: the double nearest to \<open>sqrt 1200\<close>, divided by
  10 in doubles, lies between 3.463 and 3.465, so \<open>toFixed(2)\<close> prints \<open>3.46\<close>.
\<close>

lemma quotient_sqrt_1200:
  "\<exists>t. jdiv (fl (sqrt 1200)) (Fin 10) = Fin t \<and> 3463 / 1000 < t \<and> t < 3465 / 1000"
proof -
  obtain s where s: "fl (sqrt 1200) = Fin s" and es: "\<bar>s - sqrt 1200\<bar> \<le> sqrt 1200 / 2 ^ 53"
    using fl_rel_error_mid [of "sqrt 1200"] sqrt_1200_bounds by auto
  have "sqrt 1200 / 2 ^ 53 < 1 / 1000"
    using sqrt_1200_bounds by simp
  then have bs: "34639 / 1000 < s" "s < 34643 / 1000"
    using es sqrt_1200_bounds by linarith+
  obtain t where t: "fl (s / 10) = Fin t" and et: "\<bar>t - s / 10\<bar> \<le> s / 10 / 2 ^ 53"
    using fl_rel_error_mid [of "s / 10"] bs by auto
  have "s / 10 / 2 ^ 53 < 1 / 10000"
    using bs by simp
  then have "3463 / 1000 < t" and "t < 3465 / 1000"
    using et bs by linarith+
  then show ?thesis
    by (simp add: s t)
qed

lemma published_sqrt_1200: "Number_toFixed2 (jdiv (fl (sqrt 1200)) (Fin 10)) = fl (346 / 100)"
proof -
  obtain t where t: "jdiv (fl (sqrt 1200)) (Fin 10) = Fin t" and bt: "3463 / 1000 < t" "t < 3465 / 1000"
    using quotient_sqrt_1200 by blast
  have "\<lfloor>t * 100 + 1 / 2\<rfloor> = 346"
    using bt by (simp add: floor_eq_iff)
  then have tf: "toFixed2 t = 346 / 100"
    using bt by (simp add: toFixed2_def)
  have nt: "\<not> 10 ^ 21 \<le> \<bar>t\<bar>"
    using bt by simp
  have "Number_toFixed2 (Fin t) = fl (toFixed2 t)"
    using nt by simp
  also have "\<dots> = fl (346 / 100)"
    by (simp only: tf)
  finally show ?thesis
    by (simp only: t)
qed

lemma sqrt_900: "sqrt 900 = 30"
  by (rule real_sqrt_unique) simp_all

lemma initial_distanceTo_sun:
  "distanceTo draggableCube_initial (Vector3 (Fin 0) (Fin 0) (Fin 0)) = fl (sqrt 1200)"
  by (simp add: draggableCube_initial_def distanceTo_def distanceToSquared_def jsub_def)

lemma initial_distance_sun:
  "Number_toFixed2 (jdiv (distanceTo draggableCube_initial (Vector3 (Fin 0) (Fin 0) (Fin 0))) (Fin 10))
     = fl (346 / 100)"
  by (simp only: initial_distanceTo_sun published_sqrt_1200)

lemma initial_distanceTo_fallback:
  "distanceTo draggableCube_initial (Vector3 (Fin 10) (Fin 0) (Fin 0)) = Fin 30"
  by (simp add: draggableCube_initial_def distanceTo_def distanceToSquared_def jsub_def sqrt_900)

lemma initial_distance_fallback:
  "Number_toFixed2 (jdiv (distanceTo draggableCube_initial (Vector3 (Fin 10) (Fin 0) (Fin 0))) (Fin 10))
     = Fin 3"
  by (simp add: initial_distanceTo_fallback toFixed2_def)

section \<open>The bodies of the ranking\<close>

text \<open>
  C4, as the code has it. Whatever the refresh data holds, a frame returns a ranking, and
  the ranking has every body of the catalog exactly once: the nine ids, those of bodies
  with no coordinate among them. The published distance of each body is the double
  distance from the reference point to where its mesh stands, divided by 10 and put
  through \<open>toFixed(2)\<close>: the sun stands at the origin, a planet without a coordinate at
  the fallback position (10, 0, 0), a planet with a coordinate at ten times the coordinate.
\<close>

theorem ranking_covers_catalog:
  "\<exists>fr. animate (planetMeshes pd) cube project w h = Inr fr
     \<and> mset (map pd_id (distances fr)) = mset (map planet_id PLANETS)
     \<and> set (map pd_id (distances fr)) =
         {''sun'', ''mercury'', ''venus'', ''earth'', ''mars'', ''jupiter'', ''saturn'', ''uranus'',
          ''neptune''}
     \<and> (\<forall>planet \<in> set PLANETS.
          publishedDistance (distances fr) (planet_id planet) =
            Some (Number_toFixed2 (jdiv (distanceTo cube
              (if planet_id planet = ''sun'' then Vector3 (Fin 0) (Fin 0) (Fin 0)
               else case coordsOf pd (planet_id planet) of
                      None \<Rightarrow> Vector3 (Fin 10) (Fin 0) (Fin 0)
                    | Some c \<Rightarrow> Vector3 (jmul (coord_x c) (Fin 10)) (jmul (coord_y c) (Fin 10))
                                  (jmul (coord_z c) (Fin 10)))) (Fin 10))))"
proof -
  let ?ds = "sort_array compareFn (map (catalogEntry pd cube project w h) PLANETS)"
  have m: "mset (map pd_id ?ds) = mset (map planet_id PLANETS)"
    by (rule mset_ranked_ids)
  have "set (map pd_id ?ds) = set (map planet_id PLANETS)"
    using m by (rule mset_eq_setD)
  also have "\<dots> = {''sun'', ''mercury'', ''venus'', ''earth'', ''mars'', ''jupiter'', ''saturn'',
      ''uranus'', ''neptune''}"
    by (simp add: PLANETS_def)
  finally have s: "set (map pd_id ?ds) = {''sun'', ''mercury'', ''venus'', ''earth'', ''mars'',
      ''jupiter'', ''saturn'', ''uranus'', ''neptune''}" .
  have d: "\<forall>planet \<in> set PLANETS.
      publishedDistance ?ds (planet_id planet) =
        Some (Number_toFixed2 (jdiv (distanceTo cube
          (if planet_id planet = ''sun'' then Vector3 (Fin 0) (Fin 0) (Fin 0)
           else case coordsOf pd (planet_id planet) of
                  None \<Rightarrow> Vector3 (Fin 10) (Fin 0) (Fin 0)
                | Some c \<Rightarrow> Vector3 (jmul (coord_x c) (Fin 10)) (jmul (coord_y c) (Fin 10))
                              (jmul (coord_z c) (Fin 10)))) (Fin 10)))"
  proof
    fix planet
    assume "planet \<in> set PLANETS"
    then show "publishedDistance ?ds (planet_id planet) =
        Some (Number_toFixed2 (jdiv (distanceTo cube
          (if planet_id planet = ''sun'' then Vector3 (Fin 0) (Fin 0) (Fin 0)
           else case coordsOf pd (planet_id planet) of
                  None \<Rightarrow> Vector3 (Fin 10) (Fin 0) (Fin 0)
                | Some c \<Rightarrow> Vector3 (jmul (coord_x c) (Fin 10)) (jmul (coord_y c) (Fin 10))
                              (jmul (coord_z c) (Fin 10)))) (Fin 10)))"
      by (simp only: publishedDistance_catalog scenePosition_unfold)
  qed
  show ?thesis
    unfolding animate_catalog using m s d by (intro exI conjI) (rule refl, simp_all only: Frame.simps)
qed

text \<open>
  The theorem in the first frame after a response that has a coordinate for the Earth only,
  (1, 0, 0): the sun is published at 3.46, Mars, which has no coordinate, at 3, and the
  Earth, which stands where the fallback is, at 3.
\<close>

theorem ranking_covers_catalog_witness:
  "\<exists>fr. animate (planetMeshes (Some \<lparr>data = [''earth'' \<mapsto> \<lparr>timestamp = ''2024-01-01T00:00:00.000Z'',
          coord_x = Fin 1, coord_y = Fin 0, coord_z = Fin 0\<rparr>], status = ''success''\<rparr>))
        draggableCube_initial id 1024 768 = Inr fr
     \<and> publishedDistance (distances fr) ''sun'' = Some (fl (346 / 100))
     \<and> publishedDistance (distances fr) ''mars'' = Some (Fin 3)
     \<and> publishedDistance (distances fr) ''earth'' = Some (Fin 3)"
proof -
  let ?pd = "Some \<lparr>data = [''earth'' \<mapsto> \<lparr>timestamp = ''2024-01-01T00:00:00.000Z'',
        coord_x = Fin 1, coord_y = Fin 0, coord_z = Fin 0\<rparr>], status = ''success''\<rparr>"
  obtain fr where fr: "animate (planetMeshes ?pd) draggableCube_initial id 1024 768 = Inr fr"
    and d: "\<forall>planet \<in> set PLANETS.
          publishedDistance (distances fr) (planet_id planet) =
            Some (Number_toFixed2 (jdiv (distanceTo draggableCube_initial
              (if planet_id planet = ''sun'' then Vector3 (Fin 0) (Fin 0) (Fin 0)
               else case coordsOf ?pd (planet_id planet) of
                      None \<Rightarrow> Vector3 (Fin 10) (Fin 0) (Fin 0)
                    | Some c \<Rightarrow> Vector3 (jmul (coord_x c) (Fin 10)) (jmul (coord_y c) (Fin 10))
                                  (jmul (coord_z c) (Fin 10)))) (Fin 10)))"
    using ranking_covers_catalog [of ?pd draggableCube_initial id 1024 768] by blast
  have "PLANETS ! 0 \<in> set PLANETS" and "PLANETS ! 4 \<in> set PLANETS" and "PLANETS ! 3 \<in> set PLANETS"
    by (simp_all add: PLANETS_def)
  then have "publishedDistance (distances fr) ''sun'' = Some (fl (346 / 100))"
    and "publishedDistance (distances fr) ''mars'' = Some (Fin 3)"
    and "publishedDistance (distances fr) ''earth'' = Some (Fin 3)"
    using d [rule_format, of "PLANETS ! 0"] d [rule_format, of "PLANETS ! 4"]
      d [rule_format, of "PLANETS ! 3"]
    by (simp_all add: PLANETS_def coordsOf_def initial_distance_sun initial_distance_fallback
        del: Number_toFixed2.simps jdiv.simps)
  with fr show ?thesis
    by blast
qed

text \<open>
  C4 as stated fails: with a response that has a coordinate for the Earth only, Mars has
  no coordinate and is ranked.
\<close>

theorem ranking_without_coordinate_counterexample:
  "coordsOf (Some \<lparr>data = [''earth'' \<mapsto> \<lparr>timestamp = ''2024-01-01T00:00:00.000Z'',
        coord_x = Fin 1, coord_y = Fin 0, coord_z = Fin 0\<rparr>], status = ''success''\<rparr>) ''mars'' = None
   \<and> ''mars'' \<in> set (map pd_id (ranking (animate
        (planetMeshes (Some \<lparr>data = [''earth'' \<mapsto> \<lparr>timestamp = ''2024-01-01T00:00:00.000Z'',
           coord_x = Fin 1, coord_y = Fin 0, coord_z = Fin 0\<rparr>], status = ''success''\<rparr>))
        draggableCube_initial id 1024 768)))"
proof -
  let ?pd = "Some \<lparr>data = [''earth'' \<mapsto> \<lparr>timestamp = ''2024-01-01T00:00:00.000Z'',
        coord_x = Fin 1, coord_y = Fin 0, coord_z = Fin 0\<rparr>], status = ''success''\<rparr>"
  have "set (map pd_id (ranking (animate (planetMeshes ?pd) draggableCube_initial id 1024 768))) =
      set (map planet_id PLANETS)"
    unfolding ranking_animate using mset_ranked_ids by (rule mset_eq_setD)
  then have "''mars'' \<in> set (map pd_id (ranking (animate (planetMeshes ?pd) draggableCube_initial id 1024 768)))"
    by (simp add: PLANETS_def)
  then show ?thesis
    by (simp add: coordsOf_def)
qed

section \<open>The order of the ranking\<close>

lemma fl_gridded: "0 \<le> x \<Longrightarrow> gridded (fl x)"
proof -
  assume "0 \<le> x"
  then have "nonneg (fl x)"
    by (rule fl_nonneg)
  then show ?thesis
    using fl_grid [of x] by (cases "fl x") simp_all
qed

lemma gridded_not_NaN: "gridded v \<Longrightarrow> \<not> isNaN v"
  by (cases v) simp_all

lemma gridded_nonneg: "gridded v \<Longrightarrow> nonneg v"
  by (cases v) simp_all

text \<open>
  Two doubles that differ are at least \<open>2 ^ - 1074\<close> apart, so their difference does not
  round to zero: on distances the comparator is positive exactly when the first is larger.
\<close>

lemma onGrid_diff:
  assumes "onGrid a" and "onGrid b" and "b < a"
  shows "2 powi (- 1074) \<le> a - b"
proof -
  obtain n m :: int where a: "a = of_int n * 2 powi (- 1074)" and b: "b = of_int m * 2 powi (- 1074)"
    using assms(1,2) unfolding onGrid_def by blast
  have "real_of_int m * 2 powi (- 1074) < of_int n * 2 powi (- 1074)"
    using assms(3) by (simp only: a b)
  then have "real_of_int m < of_int n"
    by (simp only: mult_less_cancel_right_pos two_powi_pos)
  then have "1 \<le> n - m"
    by simp
  then have "(1::real) \<le> of_int (n - m)"
    by (simp only: of_int_1_le_iff)
  then have "1 * 2 powi (- 1074) \<le> real_of_int (n - m) * 2 powi (- 1074)"
    by (intro mult_right_mono) simp_all
  then show ?thesis
    by (simp add: a b left_diff_distrib)
qed

lemma positive_jsub:
  "gridded a \<Longrightarrow> gridded b \<Longrightarrow> positive (jsub a b) \<longleftrightarrow> \<not> jkey a \<le> jkey b"
proof (cases a; cases b)
  fix x y
  assume a: "a = Fin x" and b: "b = Fin y" and ga: "gridded a" and gb: "gridded b"
  show "positive (jsub a b) \<longleftrightarrow> \<not> jkey a \<le> jkey b"
  proof (cases "y < x")
    case True
    then have "2 powi (- 1074) \<le> x - y"
      using ga gb a b by (intro onGrid_diff) simp_all
    then have "positive (fl (x - y))"
      by (rule fl_positive)
    then show ?thesis
      using True by (simp add: a b jsub_def)
  next
    case False
    then have "\<not> positive (fl (x - y))"
      by (intro fl_nonpos) simp
    then show ?thesis
      using False by (simp add: a b jsub_def)
  qed
qed (simp_all add: jsub_def)

lemma jless_eq_jkey:
  "\<not> isNaN a \<Longrightarrow> \<not> isNaN b \<Longrightarrow> jless_eq a b \<longleftrightarrow> jkey a \<le> jkey b"
  by (cases a; cases b) auto

lemma jkey_eq_iff: "jkey a = jkey b \<longleftrightarrow> a = b"
  by (cases a; cases b) auto

text \<open>
  On distances the comparator is consistent, and the sort is the stable insertion sort of
  the library on the key \<open>jkey\<close>.
\<close>

lemma insert_sorted_insort_key:
  "gridded (pd_distance a) \<Longrightarrow> \<forall>b \<in> set bs. gridded (pd_distance b) \<Longrightarrow>
   insert_sorted compareFn a bs = insort_key (\<lambda>e. jkey (pd_distance e)) a bs"
  by (induction bs) (simp_all add: compareFn_def positive_jsub)

lemma sort_array_sort_key:
  "\<forall>b \<in> set bs. gridded (pd_distance b) \<Longrightarrow>
   sort_array compareFn bs = sort_key (\<lambda>e. jkey (pd_distance e)) bs"
proof (induction bs)
  case Nil
  show ?case by (simp add: sort_array_def)
next
  case (Cons a bs)
  then have "sort_array compareFn bs = sort_key (\<lambda>e. jkey (pd_distance e)) bs"
    by simp
  moreover have "sort_array compareFn (a # bs) = insert_sorted compareFn a (sort_array compareFn bs)"
    by (simp add: sort_array_def)
  ultimately show ?case
    using Cons.prems by (simp add: insert_sorted_insort_key)
qed

lemma sort_array_sorted:
  assumes "\<forall>b \<in> set bs. gridded (pd_distance b)"
  shows "sorted_wrt (\<lambda>a b. jless_eq (pd_distance a) (pd_distance b)) (sort_array compareFn bs)"
proof -
  let ?k = "\<lambda>e. jkey (pd_distance e)"
  have "sorted (map ?k (sort_key ?k bs))"
    by (rule sorted_sort_key)
  then have "sorted_wrt (\<lambda>a b. ?k a \<le> ?k b) (sort_key ?k bs)"
    by (simp only: sorted_map)
  then have "sorted_wrt (\<lambda>a b. jless_eq (pd_distance a) (pd_distance b)) (sort_key ?k bs)"
  proof (rule sorted_wrt_mono_rel [rotated])
    fix a b
    assume "a \<in> set (sort_key ?k bs)" and "b \<in> set (sort_key ?k bs)" and "?k a \<le> ?k b"
    then show "jless_eq (pd_distance a) (pd_distance b)"
      using assms by (simp add: jless_eq_jkey gridded_not_NaN)
  qed
  then show ?thesis
    by (simp only: sort_array_sort_key [OF assms])
qed

lemma sort_array_stable:
  assumes "\<forall>b \<in> set bs. gridded (pd_distance b)"
  shows "filter (\<lambda>e. pd_distance e = d) (sort_array compareFn bs) = filter (\<lambda>e. pd_distance e = d) bs"
proof -
  let ?k = "\<lambda>e. jkey (pd_distance e)"
  have "filter (\<lambda>e. ?k e = jkey d) (sort_key ?k bs) = filter (\<lambda>e. ?k e = jkey d) bs"
    by (rule sort_key_stable)
  then show ?thesis
    by (simp only: sort_array_sort_key [OF assms] jkey_eq_iff)
qed

text \<open>
  Every published distance is \<open>Infinity\<close> or a double that is zero or above, when the cube
  stands at a finite position and no coordinate has a \<open>NaN\<close>.
\<close>

lemma jmul_10_NaN: "isNaN (jmul v (Fin 10)) \<longleftrightarrow> isNaN v"
  by (cases v) simp_all

lemma jsub_not_NaN: "isFinite c \<Longrightarrow> \<not> isNaN m \<Longrightarrow> \<not> isNaN (jsub c m)"
  by (cases c; cases m) (simp_all add: jsub_def)

lemma jmul_self_nonneg: "\<not> isNaN v \<Longrightarrow> nonneg (jmul v v)"
  by (cases v) (simp_all add: fl_nonneg)

lemma square_nonneg: "isFinite c \<Longrightarrow> \<not> isNaN m \<Longrightarrow> nonneg (jmul (jsub c m) (jsub c m))"
  by (intro jmul_self_nonneg jsub_not_NaN)

lemma jadd_nonneg: "nonneg a \<Longrightarrow> nonneg b \<Longrightarrow> nonneg (jadd a b)"
  by (cases a; cases b) (simp_all add: fl_nonneg)

lemma jsqrt_gridded: "nonneg v \<Longrightarrow> gridded (jsqrt v)"
  by (cases v) (simp_all add: fl_gridded)

lemma jdiv_10_gridded: "gridded v \<Longrightarrow> gridded (jdiv v (Fin 10))"
  by (cases v) (simp_all add: fl_gridded)

lemma toFixed2_nonneg: "0 \<le> v \<Longrightarrow> 0 \<le> toFixed2 v"
  by (simp add: toFixed2_def)

lemma Number_toFixed2_gridded: "gridded v \<Longrightarrow> gridded (Number_toFixed2 v)"
  by (cases v) (simp_all add: fl_gridded toFixed2_nonneg)

lemma distance_gridded:
  "nonneg v \<Longrightarrow> gridded (Number_toFixed2 (jdiv (jsqrt v) SCALE_FACTOR))"
  unfolding SCALE_FACTOR_def
  by (intro Number_toFixed2_gridded jdiv_10_gridded jsqrt_gridded)

lemma published_distance_gridded:
  assumes "finiteV cube" and "\<not> isNaN (vx m)" and "\<not> isNaN (vy m)" and "\<not> isNaN (vz m)"
  shows "gridded (Number_toFixed2 (jdiv (distanceTo cube m) SCALE_FACTOR))"
  unfolding distanceTo_def distanceToSquared_def Let_def
  using assms by (intro distance_gridded jadd_nonneg square_nonneg) (simp_all add: finiteV_def)

lemma scenePosition_not_NaN:
  assumes "\<forall>k c. coordsOf pd k = Some c \<longrightarrow>
      \<not> isNaN (coord_x c) \<and> \<not> isNaN (coord_y c) \<and> \<not> isNaN (coord_z c)"
  shows "\<not> isNaN (vx (scenePosition pd planet)) \<and> \<not> isNaN (vy (scenePosition pd planet))
    \<and> \<not> isNaN (vz (scenePosition pd planet))"
proof (cases "coordsOf pd (planet_id planet)")
  case None
  then show ?thesis
    by (simp add: scenePosition_def sunPosition_def meshPosition_None)
next
  case (Some c)
  then show ?thesis
    using assms by (simp add: scenePosition_def sunPosition_def meshPosition_Some jmul_10_NaN
        del: jmul.simps)
qed

lemma catalogEntry_gridded:
  assumes "finiteV cube"
    and "\<forall>k c. coordsOf pd k = Some c \<longrightarrow>
      \<not> isNaN (coord_x c) \<and> \<not> isNaN (coord_y c) \<and> \<not> isNaN (coord_z c)"
  shows "\<forall>e \<in> set (map (catalogEntry pd cube project w h) PLANETS). gridded (pd_distance e)"
proof -
  have "gridded (pd_distance (catalogEntry pd cube project w h planet))" for planet
    using published_distance_gridded [OF assms(1), of "scenePosition pd planet"]
      scenePosition_not_NaN [OF assms(2), of planet]
    by (simp add: catalogEntry_def)
  then show ?thesis by simp
qed

text \<open>
  C1, as the code has it. When the cube stands at a finite position and no supplied
  coordinate has a \<open>NaN\<close> component, the ranking of a frame is sorted ascending by the
  rounded distance, and the bodies that share a rounded distance appear in the order of
  the catalog (sun, mercury, venus, earth, mars, jupiter, saturn, uranus, neptune): the
  sort is stable and compares distances only, never ids.
\<close>

theorem ranking_sorted_ties_in_catalog_order:
  "finiteV cube \<Longrightarrow>
   \<forall>k c. coordsOf pd k = Some c \<longrightarrow>
      \<not> isNaN (coord_x c) \<and> \<not> isNaN (coord_y c) \<and> \<not> isNaN (coord_z c) \<Longrightarrow>
   \<exists>fr. animate (planetMeshes pd) cube project w h = Inr fr
     \<and> sorted_wrt (\<lambda>a b. jless_eq (pd_distance a) (pd_distance b)) (distances fr)
     \<and> (\<forall>d. subseq (map pd_id (filter (\<lambda>e. pd_distance e = d) (distances fr)))
               (map planet_id PLANETS))"
proof -
  assume cube: "finiteV cube"
    and coords: "\<forall>k c. coordsOf pd k = Some c \<longrightarrow>
      \<not> isNaN (coord_x c) \<and> \<not> isNaN (coord_y c) \<and> \<not> isNaN (coord_z c)"
  let ?new = "map (catalogEntry pd cube project w h) PLANETS"
  have nn: "\<forall>e \<in> set ?new. gridded (pd_distance e)"
    using cube coords by (rule catalogEntry_gridded)
  have s: "sorted_wrt (\<lambda>a b. jless_eq (pd_distance a) (pd_distance b)) (sort_array compareFn ?new)"
    using nn by (rule sort_array_sorted)
  have "subseq (map pd_id (filter (\<lambda>e. pd_distance e = d) (sort_array compareFn ?new)))
      (map planet_id PLANETS)" for d
  proof -
    have "subseq (map pd_id (filter (\<lambda>e. pd_distance e = d) ?new)) (map pd_id ?new)"
      by (intro subseq_map subseq_filter_left)
    then show ?thesis
      by (simp only: sort_array_stable [OF nn] catalogEntry_ids)
  qed
  with s show ?thesis
    by (simp add: animate_catalog)
qed

text \<open>The theorem at the first frame: no response yet, the cube where the scene set-up puts it.\<close>

theorem ranking_sorted_ties_in_catalog_order_witness:
  "\<exists>fr. animate (planetMeshes None) draggableCube_initial id 1024 768 = Inr fr
     \<and> sorted_wrt (\<lambda>a b. jless_eq (pd_distance a) (pd_distance b)) (distances fr)
     \<and> (\<forall>d. subseq (map pd_id (filter (\<lambda>e. pd_distance e = d) (distances fr)))
               (map planet_id PLANETS))"
proof -
  have "finiteV draggableCube_initial"
    by (simp add: finiteV_def draggableCube_initial_def)
  moreover have "\<forall>k c. coordsOf None k = Some c \<longrightarrow>
      \<not> isNaN (coord_x c) \<and> \<not> isNaN (coord_y c) \<and> \<not> isNaN (coord_z c)"
    by (simp add: coordsOf_def)
  ultimately show ?thesis
    by (rule ranking_sorted_ties_in_catalog_order)
qed

text \<open>The ranking of the first frame, before any response has arrived.\<close>

lemma fl_346_above_3: "positive (jsub (fl (346 / 100)) (Fin 3))"
proof -
  obtain y where y: "fl (346 / 100) = Fin y" and e: "\<bar>y - 346 / 100\<bar> \<le> 346 / 100 / 2 ^ 53"
    using fl_rel_error_mid [of "346 / 100"] by auto
  have "(346 / 100 / 2 ^ 53 :: real) < 1 / 100"
    by simp
  then have "3 < y"
    using e by linarith
  moreover have "gridded (fl (346 / 100))"
    by (rule fl_gridded) simp
  then have "gridded (Fin y)"
    by (simp only: y)
  moreover have "gridded (Fin 3)"
    using fl_gridded [of 3] by simp
  ultimately show ?thesis
    unfolding y using positive_jsub [of "Fin y" "Fin 3"] by simp
qed

lemma initial_frame_entries:
  "map (\<lambda>e. (pd_id e, pd_distance e))
     (sort_array compareFn (map (catalogEntry None draggableCube_initial project w h) PLANETS)) =
   [(''mercury'', Fin 3), (''venus'', Fin 3), (''earth'', Fin 3), (''mars'', Fin 3),
    (''jupiter'', Fin 3), (''saturn'', Fin 3), (''uranus'', Fin 3), (''neptune'', Fin 3),
    (''sun'', fl (346 / 100))]"
proof -
  have e: "map (catalogEntry None draggableCube_initial project w h) PLANETS =
      map (\<lambda>planet. \<lparr>pd_id = planet_id planet, pd_name = planet_name planet,
            pd_distance = (if planet_id planet = ''sun'' then fl (346 / 100) else Fin 3),
            pd_position = labelPosition (project (scenePosition None planet)) w h\<rparr>) PLANETS"
    by (simp add: PLANETS_def catalogEntry_def scenePosition_unfold coordsOf_def SCALE_FACTOR_def
        initial_distance_sun initial_distance_fallback del: Number_toFixed2.simps jdiv.simps)
  have z: "\<not> positive (jsub (Fin 3) (Fin 3))"
    by (simp add: jsub_def)
  show ?thesis
    unfolding e
    by (simp add: PLANETS_def sort_array_def compareFn_def z fl_346_above_3 [simplified])
qed

lemma initial_frame_ranking:
  "map pd_id (ranking (animate (planetMeshes None) draggableCube_initial project w h)) =
     [''mercury'', ''venus'', ''earth'', ''mars'', ''jupiter'', ''saturn'', ''uranus'', ''neptune'', ''sun'']"
  "map pd_distance (ranking (animate (planetMeshes None) draggableCube_initial project w h)) =
     [Fin 3, Fin 3, Fin 3, Fin 3, Fin 3, Fin 3, Fin 3, Fin 3, fl (346 / 100)]"
proof -
  let ?ds = "sort_array compareFn (map (catalogEntry None draggableCube_initial project w h) PLANETS)"
  have ids: "map pd_id ?ds = map fst (map (\<lambda>e. (pd_id e, pd_distance e)) ?ds)"
    and dists: "map pd_distance ?ds = map snd (map (\<lambda>e. (pd_id e, pd_distance e)) ?ds)"
    by (simp_all add: comp_def)
  show "map pd_id (ranking (animate (planetMeshes None) draggableCube_initial project w h)) =
     [''mercury'', ''venus'', ''earth'', ''mars'', ''jupiter'', ''saturn'', ''uranus'', ''neptune'', ''sun'']"
    unfolding ranking_animate
    by (simp only: ids initial_frame_entries) simp
  show "map pd_distance (ranking (animate (planetMeshes None) draggableCube_initial project w h)) =
     [Fin 3, Fin 3, Fin 3, Fin 3, Fin 3, Fin 3, Fin 3, Fin 3, fl (346 / 100)]"
    unfolding ranking_animate
    by (simp only: dists initial_frame_entries) simp
qed

text \<open>
  C1 as stated fails at the first frame, before any response has arrived, with the cube
  where the scene set-up puts it. The eight planets stand at the fallback position and
  share the rounded distance 3; they are ranked in the order of the catalog, so Venus
  comes before the Earth, though \<open>earth\<close> is the smaller id. The sun, at 3.46, comes last.
\<close>

theorem ranking_tie_break_counterexample:
  "map pd_id (ranking (animate (planetMeshes None) draggableCube_initial id 1024 768)) =
     [''mercury'', ''venus'', ''earth'', ''mars'', ''jupiter'', ''saturn'', ''uranus'', ''neptune'', ''sun'']
   \<and> map pd_distance (ranking (animate (planetMeshes None) draggableCube_initial id 1024 768)) =
     [Fin 3, Fin 3, Fin 3, Fin 3, Fin 3, Fin 3, Fin 3, Fin 3, fl (346 / 100)]
   \<and> ''earth'' < ''venus''"
  by (simp add: initial_frame_ranking)

section \<open>The published distance\<close>

lemma toFixed2_round_half_away_2:
  "\<bar>v\<bar> < 10 ^ 21 \<Longrightarrow> toFixed2 v = round_half_away_2 v"
  by (auto simp add: toFixed2_def round_half_away_2_def sgn_real_def)

text \<open>
  The rounding of the specification's words is what its name says: a multiple of 0.01,
  nearest to the argument, the one further from zero when two are nearest.
\<close>

lemma round_half_away_2_nearest:
  "\<exists>n::int. round_half_away_2 v = of_int n / 100 \<and> \<bar>round_half_away_2 v - v\<bar> \<le> 1 / 200
     \<and> (\<bar>round_half_away_2 v - v\<bar> = 1 / 200 \<longrightarrow> \<bar>v\<bar> < \<bar>round_half_away_2 v\<bar>)"
proof -
  define m where "m = \<lfloor>\<bar>v\<bar> * 100 + 1 / 2\<rfloor>"
  have lo: "of_int m \<le> \<bar>v\<bar> * 100 + 1 / 2" and hi: "\<bar>v\<bar> * 100 + 1 / 2 < of_int m + 1"
    unfolding m_def by linarith+
  have m0: "0 \<le> m" unfolding m_def by simp
  show ?thesis
  proof (cases "v < 0")
    case True
    then have r: "round_half_away_2 v = of_int (- m) / 100"
      by (simp add: round_half_away_2_def m_def)
    show ?thesis
      apply (rule exI [of _ "- m"])
      using True lo hi m0 unfolding r by (auto simp add: abs_if)
  next
    case False
    then have r: "round_half_away_2 v = of_int m / 100"
      by (cases "v = 0") (simp_all add: round_half_away_2_def m_def)
    show ?thesis
      apply (rule exI [of _ m])
      using False lo hi m0 unfolding r by (auto simp add: abs_if)
  qed
qed

text \<open>A quotient \<open>distance / 10\<close> that is a number at all is zero or above.\<close>

lemma jsqrt_cases: "jsqrt v = NaN \<or> gridded (jsqrt v)"
  by (cases v) (simp_all add: fl_gridded)

lemma quotient_nonneg:
  assumes "jdiv (distanceTo cube mesh) (Fin 10) = Fin q"
  shows "0 \<le> q"
proof -
  have "distanceTo cube mesh \<noteq> NaN"
    using assms by auto
  then have "gridded (distanceTo cube mesh)"
    using jsqrt_cases [of "distanceToSquared cube mesh"] by (simp add: distanceTo_def)
  then have "gridded (jdiv (distanceTo cube mesh) (Fin 10))"
    by (rule jdiv_10_gridded)
  then show ?thesis
    by (simp add: assms)
qed

lemma published_distance_quotient:
  assumes "planet \<in> set PLANETS"
    and "planetMeshes pd (planet_id planet) = Some mesh"
    and "jdiv (distanceTo cube mesh) (Fin 10) = Fin q"
    and "q < 10 ^ 21"
  shows "publishedDistance (ranking (animate (planetMeshes pd) cube project w h)) (planet_id planet) =
    Some (fl (round_half_away_2 q))"
proof -
  have pos: "scenePosition pd planet = mesh"
    using planetMeshes_catalog [OF assms(1), of pd] assms(2) by simp
  have q: "\<bar>q\<bar> < 10 ^ 21"
    using quotient_nonneg [OF assms(3)] assms(4) by simp
  then have "toFixed2 q = round_half_away_2 q"
    by (rule toFixed2_round_half_away_2)
  then have "Number_toFixed2 (Fin q) = fl (round_half_away_2 q)"
    using q by simp
  then show ?thesis
    unfolding ranking_animate publishedDistance_catalog [OF assms(1)] pos assms(3) by simp
qed

text \<open>
  C3, as the code has it. The distance of the cube from the mesh and its quotient by 10 are
  computed in double arithmetic (\<open>distanceTo\<close>, then \<open>/ SCALE_FACTOR\<close>). When that
  quotient is a finite double \<open>q\<close> (below \<open>10^21\<close>, from where on \<open>toFixed\<close> prints the
  number itself), the distance a frame publishes for a body of the catalog is the double
  nearest to \<open>r\<close>, where \<open>r\<close> is \<open>q\<close> rounded to two decimals, halves away from zero: a
  multiple of 0.01, at most 0.005 from \<open>q\<close>, and the larger one when \<open>q\<close> lies half-way.
  The rounding is that of the double \<open>q\<close>, not of the exact quotient of the Euclidean norm.
\<close>

theorem published_distance_rounded:
  "planet \<in> set PLANETS \<Longrightarrow>
   planetMeshes pd (planet_id planet) = Some mesh \<Longrightarrow>
   jdiv (distanceTo cube mesh) (Fin 10) = Fin q \<Longrightarrow>
   q < 10 ^ 21 \<Longrightarrow>
   \<exists>fr r. animate (planetMeshes pd) cube project w h = Inr fr
     \<and> publishedDistance (distances fr) (planet_id planet) = Some (fl r)
     \<and> r = round_half_away_2 q
     \<and> (\<exists>n::int. r = of_int n / 100)
     \<and> \<bar>r - q\<bar> \<le> 1 / 200
     \<and> (\<bar>r - q\<bar> = 1 / 200 \<longrightarrow> q < r)"
proof -
  assume a: "planet \<in> set PLANETS"
    "planetMeshes pd (planet_id planet) = Some mesh"
    "jdiv (distanceTo cube mesh) (Fin 10) = Fin q"
    "q < 10 ^ 21"
  obtain fr where fr: "animate (planetMeshes pd) cube project w h = Inr fr"
    by (simp add: animate_catalog)
  then have "ranking (animate (planetMeshes pd) cube project w h) = distances fr"
    by (simp add: ranking_def)
  with published_distance_quotient [OF a, of project w h]
  have d: "publishedDistance (distances fr) (planet_id planet) = Some (fl (round_half_away_2 q))"
    by simp
  obtain n :: int where n: "round_half_away_2 q = of_int n / 100"
    and le: "\<bar>round_half_away_2 q - q\<bar> \<le> 1 / 200"
    and tie: "\<bar>round_half_away_2 q - q\<bar> = 1 / 200 \<longrightarrow> \<bar>q\<bar> < \<bar>round_half_away_2 q\<bar>"
    using round_half_away_2_nearest [of q] by blast
  have v0: "0 \<le> q"
    using a(3) by (rule quotient_nonneg)
  then have r0: "0 \<le> round_half_away_2 q"
    by (simp add: round_half_away_2_def sgn_real_def)
  have up: "\<bar>round_half_away_2 q - q\<bar> = 1 / 200 \<longrightarrow> q < round_half_away_2 q"
    using tie v0 r0 by linarith
  from fr d n le up show ?thesis
    by blast
qed

lemma fl_quarters:
  "fl (1 / 4) = Fin (1 / 4)" "fl (3 / 4) = Fin (3 / 4)" "fl (5 / 4) = Fin (5 / 4)"
  "fl (1 / 8) = Fin (1 / 8)" "fl (9 / 16) = Fin (9 / 16)" "fl (25 / 16) = Fin (25 / 16)"
  "fl (- (1 / 4)) = Fin (- (1 / 4))"
  using fl_frac [of 1 2] fl_frac [of 3 2] fl_frac [of 5 2] fl_frac [of 1 3] fl_frac [of 9 4]
    fl_frac [of 25 4] fl_frac [of "- 1" 2]
  by simp_all

lemma sqrt_25_16: "sqrt (25 / 16) = 5 / 4"
  by (rule real_sqrt_unique) (simp_all add: power2_eq_square)

lemma sqrt_9_16: "sqrt (9 / 16) = 3 / 4"
  by (rule real_sqrt_unique) (simp_all add: power2_eq_square)

lemma mesh_mercury_None: "planetMeshes None ''mercury'' = Some (Vector3 (Fin 10) (Fin 0) (Fin 0))"
  by (simp add: planetMeshes_unfold meshPosition_def coordsOf_def PLANETS_def)

text \<open>
  The theorem before any response has arrived, with the cube dragged to (11.25, 0, 0), for
  Mercury at the fallback position: the distance is 1.25, the quotient 0.125 is a double and
  lies half-way, and 0.13 is published.
\<close>

theorem published_distance_rounded_witness:
  "\<exists>fr. animate (planetMeshes None) (Vector3 (Fin (45 / 4)) (Fin 0) (Fin 0)) id 1024 768 = Inr fr
     \<and> publishedDistance (distances fr) ''mercury'' = Some (fl (13 / 100))"
proof -
  have mercury: "PLANETS ! 1 \<in> set PLANETS" and id: "planet_id (PLANETS ! 1) = ''mercury''"
    by (simp_all add: PLANETS_def)
  have m: "planetMeshes None (planet_id (PLANETS ! 1)) = Some (Vector3 (Fin 10) (Fin 0) (Fin 0))"
    by (simp only: id mesh_mercury_None)
  have "distanceTo (Vector3 (Fin (45 / 4)) (Fin 0) (Fin 0)) (Vector3 (Fin 10) (Fin 0) (Fin 0)) = Fin (5 / 4)"
    by (simp add: distanceTo_def distanceToSquared_def jsub_def fl_quarters sqrt_25_16)
  then have q: "jdiv (distanceTo (Vector3 (Fin (45 / 4)) (Fin 0) (Fin 0)) (Vector3 (Fin 10) (Fin 0) (Fin 0)))
      (Fin 10) = Fin (1 / 8)"
    by (simp add: fl_quarters)
  have b: "(1 / 8 :: real) < 10 ^ 21"
    by simp
  have r: "round_half_away_2 (1 / 8) = 13 / 100"
    by (simp add: round_half_away_2_def)
  show ?thesis
    using published_distance_rounded [OF mercury m q b, of id 1024 768]
    unfolding id r by blast
qed

text \<open>The double nearest to 0.075 is below 0.075.\<close>

lemma fl_3_40: "fl (3 / 40) = Fin (5404319552844595 / 72057594037927936)"
proof -
  have "fl (3 / 40) = Fin (of_int (round_half_even ((3 / 40) / 2 powi (- 4 - 52))) * 2 powi (- 4 - 52))"
    by (rule fl_eval) (simp_all add: power_int_def power_divide)
  also have "\<dots> = Fin (5404319552844595 / 72057594037927936)"
    by (simp add: power_int_def power_divide round_half_even_def)
  finally show ?thesis .
qed

lemma fl_hundredths_apart: "fl (7 / 100) \<noteq> fl (8 / 100)" "fl (7 / 100) \<noteq> Fin (8 / 100)"
proof -
  obtain y where y: "fl (7 / 100) = Fin y" and ey: "\<bar>y - 7 / 100\<bar> \<le> 7 / 100 / 2 ^ 53"
    using fl_rel_error_mid [of "7 / 100"] by auto
  obtain z where z: "fl (8 / 100) = Fin z" and ez: "\<bar>z - 8 / 100\<bar> \<le> 8 / 100 / 2 ^ 53"
    using fl_rel_error_mid [of "8 / 100"] by auto
  have "(7 / 100 / 2 ^ 53 :: real) < 1 / 1000" and "(8 / 100 / 2 ^ 53 :: real) < 1 / 1000"
    by simp_all
  then have "y < 75 / 1000" and "75 / 1000 < z"
    using ey ez by linarith+
  then have "y \<noteq> z" and "y \<noteq> 8 / 100"
    by simp_all
  then show "fl (7 / 100) \<noteq> fl (8 / 100)" and "fl (7 / 100) \<noteq> Fin (8 / 100)"
    unfolding y z by simp_all
qed

lemma norm_3_4: "euclideanNorm (43 / 4) 0 0 10 0 0 = 3 / 4"
  unfolding euclideanNorm_def by (rule real_sqrt_unique) (simp_all add: power2_eq_square)

text \<open>
  C3 as stated fails. Before any response has arrived, with the cube dragged to
  (10.75, 0, 0), Mercury stands at the fallback position (10, 0, 0): the Euclidean norm is
  0.75, the norm divided by 10 is 0.075, and half away from zero that rounds to 0.08. The
  program divides in doubles: \<open>0.75 / 10\<close> is the double just below 0.075, \<open>toFixed(2)\<close>
  prints \<open>0.07\<close>, and 0.07 is published.
\<close>

theorem published_distance_double_counterexample:
  "publishedDistance (ranking (animate (planetMeshes None) (Vector3 (Fin (43 / 4)) (Fin 0) (Fin 0))
       id 1024 768)) ''mercury'' = Some (fl (7 / 100))
   \<and> round_half_away_2 (euclideanNorm (43 / 4) 0 0 10 0 0 / 10) = 8 / 100
   \<and> fl (7 / 100) \<noteq> fl (8 / 100)
   \<and> fl (7 / 100) \<noteq> Fin (8 / 100)"
proof -
  have mercury: "PLANETS ! 1 \<in> set PLANETS" and id: "planet_id (PLANETS ! 1) = ''mercury''"
    by (simp_all add: PLANETS_def)
  have m: "planetMeshes None (planet_id (PLANETS ! 1)) = Some (Vector3 (Fin 10) (Fin 0) (Fin 0))"
    by (simp only: id mesh_mercury_None)
  have "distanceTo (Vector3 (Fin (43 / 4)) (Fin 0) (Fin 0)) (Vector3 (Fin 10) (Fin 0) (Fin 0)) = Fin (3 / 4)"
    by (simp add: distanceTo_def distanceToSquared_def jsub_def fl_quarters sqrt_9_16)
  then have q: "jdiv (distanceTo (Vector3 (Fin (43 / 4)) (Fin 0) (Fin 0)) (Vector3 (Fin 10) (Fin 0) (Fin 0)))
      (Fin 10) = Fin (5404319552844595 / 72057594037927936)"
    using fl_3_40 by simp
  have b: "(5404319552844595 / 72057594037927936 :: real) < 10 ^ 21"
    by simp
  have r: "round_half_away_2 (5404319552844595 / 72057594037927936) = 7 / 100"
    by (simp add: round_half_away_2_def)
  have "publishedDistance (ranking (animate (planetMeshes None) (Vector3 (Fin (43 / 4)) (Fin 0) (Fin 0))
       id 1024 768)) ''mercury'' = Some (fl (7 / 100))"
    using published_distance_quotient [OF mercury m q b, of id 1024 768]
    unfolding id r .
  moreover have "round_half_away_2 (euclideanNorm (43 / 4) 0 0 10 0 0 / 10) = 8 / 100"
    by (simp add: norm_3_4 round_half_away_2_def)
  ultimately show ?thesis
    using fl_hundredths_apart by blast
qed




section \<open>The label positions\<close>

text \<open>
  C9. For every body of the catalog, when the camera projects the body's mesh position to
  the normalized device coordinates (ndcX, ndcY), the frame publishes for the body the pixel
  position ((ndcX * 0.5 + 0.5) * innerWidth, (- ndcY * 0.5 + 0.5) * innerHeight), each
  operation being the one on doubles, both in \<open>planetPositions\<close> and in the body's entry
  of the ranking: the Y axis is flipped.
\<close>

theorem label_pixel_position:
  "planet \<in> set PLANETS \<Longrightarrow>
   planetMeshes pd (planet_id planet) = Some mesh \<Longrightarrow>
   project mesh = Vector3 (Fin ndcX) (Fin ndcY) ndcZ \<Longrightarrow>
   \<exists>fr. animate (planetMeshes pd) cube project innerWidth innerHeight = Inr fr
     \<and> planetPositions fr (planet_id planet) =
         Some \<lparr>pos_x = jmul (jadd (jmul (Fin ndcX) (Fin (1 / 2))) (Fin (1 / 2))) (Fin (real innerWidth)),
               pos_y = jmul (jadd (jmul (Fin (- ndcY)) (Fin (1 / 2))) (Fin (1 / 2))) (Fin (real innerHeight))\<rparr>
     \<and> map_option pd_position (find (\<lambda>p. pd_id p = planet_id planet) (distances fr)) =
         Some \<lparr>pos_x = jmul (jadd (jmul (Fin ndcX) (Fin (1 / 2))) (Fin (1 / 2))) (Fin (real innerWidth)),
               pos_y = jmul (jadd (jmul (Fin (- ndcY)) (Fin (1 / 2))) (Fin (1 / 2))) (Fin (real innerHeight))\<rparr>"
proof -
  assume cat: "planet \<in> set PLANETS" and m: "planetMeshes pd (planet_id planet) = Some mesh"
    and ndc: "project mesh = Vector3 (Fin ndcX) (Fin ndcY) ndcZ"
  have pos: "scenePosition pd planet = mesh"
    using planetMeshes_catalog [OF cat, of pd] m by simp
  have "pd_position (catalogEntry pd cube project innerWidth innerHeight planet) =
      \<lparr>pos_x = jmul (jadd (jmul (Fin ndcX) (Fin (1 / 2))) (Fin (1 / 2))) (Fin (real innerWidth)),
       pos_y = jmul (jadd (jmul (Fin (- ndcY)) (Fin (1 / 2))) (Fin (1 / 2))) (Fin (real innerHeight))\<rparr>"
    by (simp add: catalogEntry_def pos ndc labelPosition_def del: jmul.simps jadd.simps)
  then show ?thesis
    by (simp add: animate_catalog planetPositions_ranked [OF cat] find_ranked [OF cat]
        del: jmul.simps jadd.simps)
qed

text \<open>
  The theorem for the Earth, projected to (0.5, 0.5) in a window of 1024 by 768 pixels:
  the label stands at (768, 192), in the upper half.
\<close>

theorem label_pixel_position_witness:
  "\<exists>fr. animate (planetMeshes None) draggableCube_initial
       (\<lambda>v. Vector3 (Fin (1 / 2)) (Fin (1 / 2)) (Fin 0)) 1024 768 = Inr fr
     \<and> planetPositions fr ''earth'' = Some \<lparr>pos_x = Fin 768, pos_y = Fin 192\<rparr>
     \<and> map_option pd_position (find (\<lambda>p. pd_id p = ''earth'') (distances fr)) =
         Some \<lparr>pos_x = Fin 768, pos_y = Fin 192\<rparr>"
proof -
  have earth: "PLANETS ! 3 \<in> set PLANETS" and id: "planet_id (PLANETS ! 3) = ''earth''"
    by (simp_all add: PLANETS_def)
  have m: "planetMeshes None (planet_id (PLANETS ! 3)) = Some (Vector3 (Fin 10) (Fin 0) (Fin 0))"
    by (simp add: id planetMeshes_unfold PLANETS_def meshPosition_def coordsOf_def)
  show ?thesis
    using label_pixel_position [OF earth m, of "\<lambda>v. Vector3 (Fin (1 / 2)) (Fin (1 / 2)) (Fin 0)"
        "1 / 2" "1 / 2" "Fin 0" draggableCube_initial 1024 768]
    by (simp add: id fl_quarters)
qed

section \<open>One flight\<close>

lemma elapsed_fl: "elapsed f now = fl (real_of_int (now - startTime f))"
  by (simp add: elapsed_def jsub_def)

lemma elapsed_exact:
  "\<bar>now - startTime f\<bar> < 2 ^ 53 \<Longrightarrow> elapsed f now = Fin (real_of_int (now - startTime f))"
  unfolding elapsed_fl by (rule fl_of_int)

lemma progress_fl:
  "\<bar>now - startTime f\<bar> < 2 ^ 53 \<Longrightarrow>
   progress f now = jmin (fl (real_of_int (now - startTime f) / 1000)) (Fin 1)"
  by (simp add: progress_def duration_def elapsed_exact)

lemma fl_elapsed_finite:
  assumes "\<bar>e\<bar> < (2::int) ^ 53"
  shows "isFinite (fl (real_of_int e / 1000))"
proof -
  have "real_of_int \<bar>e\<bar> < of_int (2 ^ 53)"
    using assms by (simp only: of_int_less_iff)
  then have "\<bar>real_of_int e / 1000\<bar> < 2 ^ 53"
    by simp
  moreover have "(2::real) powi 53 \<le> 2 powi 1023"
    by (rule two_powi_mono) simp
  ultimately have "\<bar>real_of_int e / 1000\<bar> < 2 powi 1023"
    by (simp add: two_powi_53)
  then show ?thesis
    by (rule fl_finite)
qed

text \<open>From the start time on, the progress is the quotient of the doubles clamped to [0, 1].\<close>

lemma progress_clamp:
  assumes "\<bar>now - startTime f\<bar> < 2 ^ 53" and "startTime f \<le> now"
  shows "\<exists>p. jdiv (elapsed f now) duration = Fin p \<and> progress f now = Fin (clamp p 0 1)"
proof -
  let ?x = "real_of_int (now - startTime f) / 1000"
  have q: "jdiv (elapsed f now) duration = fl ?x"
    by (simp add: duration_def elapsed_exact [OF assms(1)])
  have "isFinite (fl ?x)"
    using assms(1) by (rule fl_elapsed_finite)
  then obtain p where p: "fl ?x = Fin p"
    by (cases "fl ?x") simp_all
  have "nonneg (fl ?x)"
    using assms(2) by (intro fl_nonneg) simp
  then have "nonneg (Fin p)"
    by (simp only: p)
  then have "0 \<le> p"
    by simp
  then have "jmin (Fin p) (Fin 1) = Fin (clamp p 0 1)"
    by (simp add: clamp_def min_def max_def)
  then have "progress f now = Fin (clamp p 0 1)"
    unfolding progress_def q p .
  moreover have "jdiv (elapsed f now) duration = Fin p"
    unfolding q p ..
  ultimately show ?thesis
    by blast
qed

lemma progress_done:
  assumes "\<bar>now - startTime f\<bar> < 2 ^ 53" and "startTime f + 1000 \<le> now"
  shows "progress f now = Fin 1"
proof -
  have "1 \<le> real_of_int (now - startTime f) / 1000"
    using assms(2) by simp
  then show ?thesis
    unfolding progress_fl [OF assms(1)] by (rule jmin_fl_ge_1)
qed


lemma progress_at_least_1: "jless_eq (Fin 1) (progress f now) \<Longrightarrow> progress f now = Fin 1"
  unfolding progress_def
  by (cases "jdiv (elapsed f now) duration") (auto simp add: min_def split: if_splits)

lemma progress_not_running: "progress f now = Fin 1 \<Longrightarrow> \<not> jless (progress f now) (Fin 1)"
  by simp

text \<open>The eased progress at the two ends, for a \<open>Math.pow\<close> that is exact at 0 and 1.\<close>

lemma easeProgress_0:
  "pow (Fin 1) (Fin 3) = Fin 1 \<Longrightarrow> progress f now = Fin 0 \<Longrightarrow> easeProgress pow f now = Fin 0"
  by (simp add: easeProgress_def jsub_def)

lemma easeProgress_1:
  "pow (Fin 0) (Fin 3) = Fin 0 \<Longrightarrow> progress f now = Fin 1 \<Longrightarrow> easeProgress pow f now = Fin 1"
  by (simp add: easeProgress_def jsub_def)

text \<open>The interpolation at the two ends.\<close>

lemma jmul_jadd_1: "jmul (jadd a c) (Fin 1) = jadd a c"
proof (cases a; cases c)
  fix x y
  assume a: "a = Fin x" and c: "c = Fin y"
  show ?thesis
  proof (cases "fl (x + y)")
    case (Fin d)
    then have "fl d = Fin d"
      by (rule fl_idem)
    then show ?thesis
      by (simp add: a c Fin)
  qed (simp_all add: a c)
qed simp_all

lemma lerp_1: "lerp a b (Fin 1) = jadd a (jsub b a)"
  unfolding lerp_def jsub_def by (simp only: jmul_jadd_1)

lemma lerpVectors_1: "lerpVectors v1 v2 (Fin 1) = arrival v1 v2"
  by (simp only: lerpVectors_def arrival_def lerp_1)

lemma lerp_0:
  assumes "isDouble x" and "\<bar>x\<bar> < 2 ^ 1022" and "\<bar>y\<bar> < 2 ^ 1022"
  shows "lerp (Fin x) (Fin y) (Fin 0) = Fin x"
proof -
  have "\<bar>y - x\<bar> < 2 * 2 ^ 1022"
    using assms(2,3) by linarith
  also have "\<dots> = 2 powi 1023"
    by (simp add: power_int_def)
  finally have "isFinite (fl (y - x))"
    by (rule fl_finite)
  then obtain d where d: "fl (y - x) = Fin d"
    by (cases "fl (y - x)") simp_all
  show ?thesis
    using assms(1) by (simp add: lerp_def jsub_def d isDouble_def)
qed

lemma lerpVectors_0:
  assumes "doubleV v1" and "doubleV v2"
  shows "lerpVectors v1 v2 (Fin 0) = v1"
proof -
  obtain a b c where v1: "v1 = Vector3 (Fin a) (Fin b) (Fin c)"
    and d: "isDouble a" "isDouble b" "isDouble c"
    and b1: "\<bar>a\<bar> < 2 ^ 1022" "\<bar>b\<bar> < 2 ^ 1022" "\<bar>c\<bar> < 2 ^ 1022"
    using assms(1) unfolding doubleV_def by blast
  obtain a' b' c' where v2: "v2 = Vector3 (Fin a') (Fin b') (Fin c')"
    and b2: "\<bar>a'\<bar> < 2 ^ 1022" "\<bar>b'\<bar> < 2 ^ 1022" "\<bar>c'\<bar> < 2 ^ 1022"
    using assms(2) unfolding doubleV_def by blast
  show ?thesis
    unfolding v1 v2 lerpVectors_def
    using lerp_0 [OF d(1) b1(1) b2(1)] lerp_0 [OF d(2) b1(2) b2(2)] lerp_0 [OF d(3) b1(3) b2(3)]
    by simp
qed

text \<open>
  C5, as the code has it. For a flight read at clock readings that are doubles, with a
  \<open>Math.pow\<close> that is exact at 0 and 1 and start and end states that are vectors of doubles:
  the progress is the smaller one of \<open>elapsed / 1000\<close>, divided in doubles, and 1, with no
  lower bound (from the start time on it is that quotient clamped to [0, 1]); the eased
  progress is \<open>1 - Math.pow(1 - progress, 3)\<close>; camera position and target are each
  \<open>start + (end - start) * eased\<close>, component by component, every operation in doubles.
  At progress 0 the state is the start state. From progress 1 on, which is reached as soon
  as 1000 ms have elapsed, the eased progress is 1 and the state is \<open>start + (end - start)\<close>
  in doubles, which need not be the end state.
\<close>

theorem flight_interpolation:
  "\<bar>now\<bar> < 2 ^ 53 \<Longrightarrow> \<bar>startTime f\<bar> < 2 ^ 53 \<Longrightarrow> \<bar>now - startTime f\<bar> < 2 ^ 53 \<Longrightarrow>
   pow (Fin 0) (Fin 3) = Fin 0 \<Longrightarrow> pow (Fin 1) (Fin 3) = Fin 1 \<Longrightarrow>
   doubleV (startPosition f) \<Longrightarrow> doubleV (startTarget f) \<Longrightarrow>
   doubleV (cameraTargetPosition f) \<Longrightarrow> doubleV (targetPosition f) \<Longrightarrow>
   progress f now = jmin (fl (real_of_int (now - startTime f) / 1000)) (Fin 1)
   \<and> (startTime f \<le> now \<longrightarrow>
        (\<exists>p. fl (real_of_int (now - startTime f) / 1000) = Fin p \<and> progress f now = Fin (clamp p 0 1)))
   \<and> easeProgress pow f now = jsub (Fin 1) (pow (jsub (Fin 1) (progress f now)) (Fin 3))
   \<and> flightState pow f now =
        \<lparr>position = lerpVectors (startPosition f) (cameraTargetPosition f) (easeProgress pow f now),
         target = lerpVectors (startTarget f) (targetPosition f) (easeProgress pow f now)\<rparr>
   \<and> (\<forall>v1 v2 alpha. lerpVectors v1 v2 alpha =
          Vector3 (jadd (vx v1) (jmul (jsub (vx v2) (vx v1)) alpha))
                  (jadd (vy v1) (jmul (jsub (vy v2) (vy v1)) alpha))
                  (jadd (vz v1) (jmul (jsub (vz v2) (vz v1)) alpha)))
   \<and> (progress f now = Fin 0 \<longrightarrow>
        flightState pow f now = \<lparr>position = startPosition f, target = startTarget f\<rparr>)
   \<and> (startTime f + 1000 \<le> now \<longrightarrow> progress f now = Fin 1)
   \<and> (jless_eq (Fin 1) (progress f now) \<longrightarrow>
        progress f now = Fin 1 \<and> easeProgress pow f now = Fin 1
        \<and> flightState pow f now =
            \<lparr>position = arrival (startPosition f) (cameraTargetPosition f),
             target = arrival (startTarget f) (targetPosition f)\<rparr>)"
proof -
  assume e: "\<bar>now - startTime f\<bar> < 2 ^ 53"
    and p0: "pow (Fin 0) (Fin 3) = Fin 0" and p1: "pow (Fin 1) (Fin 3) = Fin 1"
    and d: "doubleV (startPosition f)" "doubleV (startTarget f)"
      "doubleV (cameraTargetPosition f)" "doubleV (targetPosition f)"
  have a: "progress f now = jmin (fl (real_of_int (now - startTime f) / 1000)) (Fin 1)"
    using e by (rule progress_fl)
  have b: "startTime f \<le> now \<longrightarrow>
      (\<exists>p. fl (real_of_int (now - startTime f) / 1000) = Fin p \<and> progress f now = Fin (clamp p 0 1))"
    using progress_clamp [OF e] by (simp add: duration_def elapsed_exact [OF e])
  have c: "easeProgress pow f now = jsub (Fin 1) (pow (jsub (Fin 1) (progress f now)) (Fin 3))"
    by (simp only: easeProgress_def)
  have s: "flightState pow f now =
      \<lparr>position = lerpVectors (startPosition f) (cameraTargetPosition f) (easeProgress pow f now),
       target = lerpVectors (startTarget f) (targetPosition f) (easeProgress pow f now)\<rparr>"
    by (simp only: flightState_def)
  have l: "\<forall>v1 v2 alpha. lerpVectors v1 v2 alpha =
          Vector3 (jadd (vx v1) (jmul (jsub (vx v2) (vx v1)) alpha))
                  (jadd (vy v1) (jmul (jsub (vy v2) (vy v1)) alpha))
                  (jadd (vz v1) (jmul (jsub (vz v2) (vz v1)) alpha))"
    by (simp only: lerpVectors_def lerp_def) simp
  have z: "progress f now = Fin 0 \<longrightarrow>
      flightState pow f now = \<lparr>position = startPosition f, target = startTarget f\<rparr>"
    by (simp add: flightState_def easeProgress_0 [of pow, OF p1] lerpVectors_0 d)
  have h: "startTime f + 1000 \<le> now \<longrightarrow> progress f now = Fin 1"
    using progress_done [OF e] by simp
  have g: "jless_eq (Fin 1) (progress f now) \<longrightarrow>
        progress f now = Fin 1 \<and> easeProgress pow f now = Fin 1
        \<and> flightState pow f now =
            \<lparr>position = arrival (startPosition f) (cameraTargetPosition f),
             target = arrival (startTarget f) (targetPosition f)\<rparr>"
  proof
    assume "jless_eq (Fin 1) (progress f now)"
    then have p: "progress f now = Fin 1"
      by (rule progress_at_least_1)
    then have "easeProgress pow f now = Fin 1"
      using p0 by (intro easeProgress_1)
    then show "progress f now = Fin 1 \<and> easeProgress pow f now = Fin 1
        \<and> flightState pow f now =
            \<lparr>position = arrival (startPosition f) (cameraTargetPosition f),
             target = arrival (startTarget f) (targetPosition f)\<rparr>"
      using p by (simp add: flightState_def lerpVectors_1)
  qed
  from a b c s l z h g show ?thesis
    by blast
qed

lemma fl_halves:
  "fl (1 / 2) = Fin (1 / 2)" "fl (7 / 8) = Fin (7 / 8)" "fl (- 1) = Fin (- 1)"
  using fl_frac [of 1 1] fl_frac [of 7 3] fl_of_int [of "- 1"]
  by simp_all

text \<open>
  The theorem for a flight from position (0, 50, 100), target (0, 0, 0) to position
  (16, 2, 4), target (8, 0, 0), started at clock reading 5000, with the cube computed by two
  multiplications: half-way in time the progress is 0.5 and the eased progress 0.875; at
  the start the state is the start state; after 1000 ms it is the end state.
\<close>

theorem flight_interpolation_witness:
  "progress \<lparr>startPosition = Vector3 (Fin 0) (Fin 50) (Fin 100), startTarget = Vector3 (Fin 0) (Fin 0) (Fin 0),
       cameraTargetPosition = Vector3 (Fin 16) (Fin 2) (Fin 4), targetPosition = Vector3 (Fin 8) (Fin 0) (Fin 0),
       startTime = 5000\<rparr> 5500 = Fin (1 / 2)
   \<and> flightState (\<lambda>v w. jmul v (jmul v v))
       \<lparr>startPosition = Vector3 (Fin 0) (Fin 50) (Fin 100), startTarget = Vector3 (Fin 0) (Fin 0) (Fin 0),
        cameraTargetPosition = Vector3 (Fin 16) (Fin 2) (Fin 4), targetPosition = Vector3 (Fin 8) (Fin 0) (Fin 0),
        startTime = 5000\<rparr> 5500
       = \<lparr>position = Vector3 (Fin 14) (Fin 8) (Fin 16), target = Vector3 (Fin 7) (Fin 0) (Fin 0)\<rparr>
   \<and> flightState (\<lambda>v w. jmul v (jmul v v))
       \<lparr>startPosition = Vector3 (Fin 0) (Fin 50) (Fin 100), startTarget = Vector3 (Fin 0) (Fin 0) (Fin 0),
        cameraTargetPosition = Vector3 (Fin 16) (Fin 2) (Fin 4), targetPosition = Vector3 (Fin 8) (Fin 0) (Fin 0),
        startTime = 5000\<rparr> 5000
       = \<lparr>position = Vector3 (Fin 0) (Fin 50) (Fin 100), target = Vector3 (Fin 0) (Fin 0) (Fin 0)\<rparr>
   \<and> flightState (\<lambda>v w. jmul v (jmul v v))
       \<lparr>startPosition = Vector3 (Fin 0) (Fin 50) (Fin 100), startTarget = Vector3 (Fin 0) (Fin 0) (Fin 0),
        cameraTargetPosition = Vector3 (Fin 16) (Fin 2) (Fin 4), targetPosition = Vector3 (Fin 8) (Fin 0) (Fin 0),
        startTime = 5000\<rparr> 6000
       = \<lparr>position = Vector3 (Fin 16) (Fin 2) (Fin 4), target = Vector3 (Fin 8) (Fin 0) (Fin 0)\<rparr>"
proof -
  let ?f = "\<lparr>startPosition = Vector3 (Fin 0) (Fin 50) (Fin 100), startTarget = Vector3 (Fin 0) (Fin 0) (Fin 0),
       cameraTargetPosition = Vector3 (Fin 16) (Fin 2) (Fin 4), targetPosition = Vector3 (Fin 8) (Fin 0) (Fin 0),
       startTime = 5000\<rparr>"
  let ?pow = "\<lambda>v w :: jsnum. jmul v (jmul v v)"
  have pw: "?pow (Fin 0) (Fin 3) = Fin 0" "?pow (Fin 1) (Fin 3) = Fin 1"
    by simp_all
  have dv: "doubleV (startPosition ?f)" "doubleV (startTarget ?f)"
    "doubleV (cameraTargetPosition ?f)" "doubleV (targetPosition ?f)"
    by (simp_all add: doubleV_def isDouble_def)
  have h: "\<bar>5500 :: int\<bar> < 2 ^ 53" "\<bar>5000 :: int\<bar> < 2 ^ 53" "\<bar>6000 :: int\<bar> < 2 ^ 53"
    "\<bar>startTime ?f\<bar> < 2 ^ 53" "\<bar>5500 - startTime ?f\<bar> < 2 ^ 53"
    "\<bar>5000 - startTime ?f\<bar> < 2 ^ 53" "\<bar>6000 - startTime ?f\<bar> < 2 ^ 53"
    by simp_all
  note mid = flight_interpolation [of 5500 ?f ?pow, OF h(1) h(4) h(5) pw dv]
  note start = flight_interpolation [of 5000 ?f ?pow, OF h(2) h(4) h(6) pw dv]
  note stop = flight_interpolation [of 6000 ?f ?pow, OF h(3) h(4) h(7) pw dv]
  have p: "progress ?f 5500 = Fin (1 / 2)"
    using mid [THEN conjunct1] by (simp add: fl_halves)
  have e: "easeProgress ?pow ?f 5500 = Fin (7 / 8)"
    using mid [THEN conjunct2, THEN conjunct2, THEN conjunct1]
    unfolding p by (simp add: jsub_def fl_halves fl_quarters)
  have l: "lerpVectors v1 v2 alpha =
          Vector3 (jadd (vx v1) (jmul (jsub (vx v2) (vx v1)) alpha))
                  (jadd (vy v1) (jmul (jsub (vy v2) (vy v1)) alpha))
                  (jadd (vz v1) (jmul (jsub (vz v2) (vz v1)) alpha))" for v1 v2 alpha
    using mid by blast
  have s1: "flightState ?pow ?f 5500 =
      \<lparr>position = Vector3 (Fin 14) (Fin 8) (Fin 16), target = Vector3 (Fin 7) (Fin 0) (Fin 0)\<rparr>"
    using mid [THEN conjunct2, THEN conjunct2, THEN conjunct2, THEN conjunct1]
    unfolding e l by (simp add: jsub_def)
  have "progress ?f 5000 = Fin 0"
    using start [THEN conjunct1] by simp
  then have s0: "flightState ?pow ?f 5000 =
      \<lparr>position = Vector3 (Fin 0) (Fin 50) (Fin 100), target = Vector3 (Fin 0) (Fin 0) (Fin 0)\<rparr>"
    using start [THEN conjunct2, THEN conjunct2, THEN conjunct2, THEN conjunct2, THEN conjunct2,
        THEN conjunct1]
    by simp
  have "progress ?f 6000 = Fin 1"
    using stop [THEN conjunct2, THEN conjunct2, THEN conjunct2, THEN conjunct2, THEN conjunct2,
        THEN conjunct2, THEN conjunct1]
    by simp
  then have "flightState ?pow ?f 6000 =
      \<lparr>position = arrival (startPosition ?f) (cameraTargetPosition ?f),
       target = arrival (startTarget ?f) (targetPosition ?f)\<rparr>"
    using stop [THEN conjunct2, THEN conjunct2, THEN conjunct2, THEN conjunct2, THEN conjunct2,
        THEN conjunct2, THEN conjunct2]
    by simp
  then have s2: "flightState ?pow ?f 6000 =
      \<lparr>position = Vector3 (Fin 16) (Fin 2) (Fin 4), target = Vector3 (Fin 8) (Fin 0) (Fin 0)\<rparr>"
    by (simp add: arrival_def jsub_def)
  from p s1 s0 s2 show ?thesis
    by blast
qed

text \<open>The double nearest to 0.798, its difference from 100, and 100 plus that difference.\<close>

lemma fl_798: "fl (798 / 1000) = Fin (449234062830207 / 562949953421312)"
proof -
  have "fl (798 / 1000) =
      Fin (of_int (round_half_even ((798 / 1000) / 2 powi (- 1 - 52))) * 2 powi (- 1 - 52))"
    by (rule fl_eval) (simp_all add: power_int_def power_divide)
  also have "\<dots> = Fin (449234062830207 / 562949953421312)"
    by (simp add: power_int_def power_divide round_half_even_def)
  finally show ?thesis .
qed

lemma fl_798_minus_100:
  "fl (449234062830207 / 562949953421312 - 100) = Fin (- (436295009994539 / 4398046511104))"
proof -
  have "fl (449234062830207 / 562949953421312 - 100) =
      Fin (of_int (round_half_even ((449234062830207 / 562949953421312 - 100) / 2 powi (6 - 52)))
           * 2 powi (6 - 52))"
    by (rule fl_eval) (simp_all add: power_int_def power_divide)
  also have "\<dots> = Fin (- (436295009994539 / 4398046511104))"
    by (simp add: power_int_def power_divide round_half_even_def)
  finally show ?thesis .
qed

lemma fl_100_plus: "fl (100 - 436295009994539 / 4398046511104) = Fin (3509641115861 / 4398046511104)"
  using fl_frac [of 3509641115861 42] by simp

lemma arrival_798:
  "jadd (Fin 100) (jsub (fl (798 / 1000)) (Fin 100)) = Fin (3509641115861 / 4398046511104)"
proof -
  have "jsub (fl (798 / 1000)) (Fin 100) = fl (449234062830207 / 562949953421312 - 100)"
    unfolding fl_798 jsub_def by simp
  then have "jsub (fl (798 / 1000)) (Fin 100) = Fin (- (436295009994539 / 4398046511104))"
    by (simp only: fl_798_minus_100)
  then have "jadd (Fin 100) (jsub (fl (798 / 1000)) (Fin 100)) =
      fl (100 - 436295009994539 / 4398046511104)"
    by simp
  then show ?thesis
    by (simp only: fl_100_plus)
qed

text \<open>
  C5 as stated fails in two ways. A flight read before its start time (the clock was set
  back between \<open>startTime = Date.now()\<close> and the frame) has a negative progress, not the
  clamped one: 1000 ms early the progress is -1, the eased progress -7, and a flight from
  the origin to (1, 0, 0) puts the camera at (-7, 0, 0), outside the segment. And a flight
  does not end at its end state exactly: from z = 100 to z = 0.798 (the double nearest to
  it) the final z is \<open>100 + (0.798 - 100)\<close> in doubles, which is 0.7980000000000018.
\<close>

theorem flight_end_points_counterexample:
  "progress \<lparr>startPosition = Vector3 (Fin 0) (Fin 0) (Fin 0), startTarget = Vector3 (Fin 0) (Fin 0) (Fin 0),
       cameraTargetPosition = Vector3 (Fin 1) (Fin 0) (Fin 0), targetPosition = Vector3 (Fin 0) (Fin 0) (Fin 0),
       startTime = 1000\<rparr> 0 = Fin (- 1)
   \<and> clamp (real_of_int (0 - 1000) / 1000) 0 1 = 0
   \<and> position (flightState (\<lambda>v w. jmul v (jmul v v))
       \<lparr>startPosition = Vector3 (Fin 0) (Fin 0) (Fin 0), startTarget = Vector3 (Fin 0) (Fin 0) (Fin 0),
        cameraTargetPosition = Vector3 (Fin 1) (Fin 0) (Fin 0), targetPosition = Vector3 (Fin 0) (Fin 0) (Fin 0),
        startTime = 1000\<rparr> 0) = Vector3 (Fin (- 7)) (Fin 0) (Fin 0)
   \<and> progress \<lparr>startPosition = Vector3 (Fin 0) (Fin 0) (Fin 100), startTarget = Vector3 (Fin 0) (Fin 0) (Fin 0),
       cameraTargetPosition = Vector3 (Fin 0) (Fin 0) (fl (798 / 1000)),
       targetPosition = Vector3 (Fin 0) (Fin 0) (Fin 0), startTime = 0\<rparr> 1000 = Fin 1
   \<and> position (flightState (\<lambda>v w. jmul v (jmul v v))
       \<lparr>startPosition = Vector3 (Fin 0) (Fin 0) (Fin 100), startTarget = Vector3 (Fin 0) (Fin 0) (Fin 0),
        cameraTargetPosition = Vector3 (Fin 0) (Fin 0) (fl (798 / 1000)),
        targetPosition = Vector3 (Fin 0) (Fin 0) (Fin 0), startTime = 0\<rparr> 1000)
       = Vector3 (Fin 0) (Fin 0) (Fin (3509641115861 / 4398046511104))
   \<and> fl (798 / 1000) = Fin (449234062830207 / 562949953421312)
   \<and> Fin (3509641115861 / 4398046511104) \<noteq> fl (798 / 1000)"
proof -
  let ?f1 = "\<lparr>startPosition = Vector3 (Fin 0) (Fin 0) (Fin 0), startTarget = Vector3 (Fin 0) (Fin 0) (Fin 0),
       cameraTargetPosition = Vector3 (Fin 1) (Fin 0) (Fin 0), targetPosition = Vector3 (Fin 0) (Fin 0) (Fin 0),
       startTime = 1000\<rparr>"
  let ?f2 = "\<lparr>startPosition = Vector3 (Fin 0) (Fin 0) (Fin 100), startTarget = Vector3 (Fin 0) (Fin 0) (Fin 0),
       cameraTargetPosition = Vector3 (Fin 0) (Fin 0) (fl (798 / 1000)),
       targetPosition = Vector3 (Fin 0) (Fin 0) (Fin 0), startTime = 0\<rparr>"
  let ?pow = "\<lambda>v w :: jsnum. jmul v (jmul v v)"
  have p1: "progress ?f1 0 = Fin (- 1)"
    by (simp add: progress_def elapsed_def duration_def jsub_def fl_halves)
  have c: "clamp (real_of_int (0 - 1000) / 1000) 0 1 = 0"
    by (simp add: clamp_def)
  have e1: "easeProgress ?pow ?f1 0 = Fin (- 7)"
    unfolding easeProgress_def p1 by (simp add: jsub_def)
  have s1: "position (flightState ?pow ?f1 0) = Vector3 (Fin (- 7)) (Fin 0) (Fin 0)"
    unfolding flightState_def e1 by (simp add: lerpVectors_def lerp_def jsub_def)
  have p2: "progress ?f2 1000 = Fin 1"
    by (simp add: progress_def elapsed_def duration_def jsub_def)
  have e2: "easeProgress ?pow ?f2 1000 = Fin 1"
    unfolding easeProgress_def p2 by (simp add: jsub_def)
  have "position (flightState ?pow ?f2 1000) =
      arrival (Vector3 (Fin 0) (Fin 0) (Fin 100)) (Vector3 (Fin 0) (Fin 0) (fl (798 / 1000)))"
    unfolding flightState_def e2 lerpVectors_1 by simp
  also have "\<dots> = Vector3 (Fin 0) (Fin 0) (jadd (Fin 100) (jsub (fl (798 / 1000)) (Fin 100)))"
    by (simp add: arrival_def jsub_def)
  finally have s2: "position (flightState ?pow ?f2 1000) =
      Vector3 (Fin 0) (Fin 0) (Fin (3509641115861 / 4398046511104))"
    by (simp only: arrival_798)
  have n: "Fin (3509641115861 / 4398046511104) \<noteq> fl (798 / 1000)"
    unfolding fl_798 by simp
  from p1 c s1 p2 s2 fl_798 n show ?thesis
    by blast
qed

section \<open>Several flights\<close>








section \<open>The camera across a refresh\<close>

lemma camera_eta: "\<lparr>position = position c, target = target c\<rparr> = (c::CameraState)"
  by (cases c) simp

lemma rebuilt_id: "rebuilt id c = c"
  by (simp add: rebuilt_def)

lemma sceneEffect_Some:
  "mounted s \<Longrightarrow> cameraState s = Some c \<Longrightarrow>
   sceneEffect update s = s\<lparr>liveControls := Some (rebuilt update c)\<rparr>"
  by (simp add: sceneEffect_def rebuilt_def defaultCamera_def Let_def)

lemma sceneEffect_None:
  "mounted s \<Longrightarrow> cameraState s = None \<Longrightarrow>
   sceneEffect update s = s\<lparr>liveControls := Some (update (update defaultCamera))\<rparr>"
  by (simp add: sceneEffect_def defaultCamera_def Let_def)

lemma fetchPlanetData_begin_Some:
  "mounted s \<Longrightarrow> liveControls s = Some c \<Longrightarrow>
   fetchPlanetData_begin update s = s\<lparr>cameraState := Some c, liveControls := Some (rebuilt update c)\<rparr>"
  by (simp add: fetchPlanetData_begin_def sceneEffect_Some camera_eta)

text \<open>
  C6, as the code has it. On a refresh, with the mount point there: when controls exist,
  their camera position and target are stored when the fetch starts, before the request is
  sent. Every scene effect that follows (the one the stored state triggers at once, and
  the one the response triggers) builds a new camera and new controls from what is stored:
  the stored position with the target at the origin, through the \<open>update()\<close> of the
  constructor, then the stored target, through the \<open>update()\<close> of the first frame. What is
  restored is the state of the start of the fetch, also when the camera was moved while
  the request was pending. With no camera state stored the camera is put at (0, 50, 100)
  with the target at the origin, through the same two calls of \<open>update()\<close>. With an
  \<open>update()\<close> that changes nothing, the state the effect leaves is the stored one.
\<close>

theorem camera_state_restored_on_refresh:
  "mounted s \<Longrightarrow>
   (\<forall>c. liveControls s = Some c \<longrightarrow>
      cameraState (fetchPlanetData_begin update s) = Some c
      \<and> liveControls (fetchPlanetData_begin update s) = Some (rebuilt update c)
      \<and> liveControls (fetchPlanetData_resolve update response (fetchPlanetData_begin update s)) =
          Some (rebuilt update c)
      \<and> (\<forall>c'. liveControls (fetchPlanetData_resolve update response
                  (moveCamera c' (fetchPlanetData_begin update s))) = Some (rebuilt update c)))
   \<and> (\<forall>c. cameraState s = Some c \<longrightarrow> liveControls (sceneEffect update s) = Some (rebuilt update c))
   \<and> (cameraState s = None \<longrightarrow>
        liveControls (sceneEffect update s) =
          Some (update (update \<lparr>position = Vector3 (Fin 0) (Fin 50) (Fin 100),
                                target = Vector3 (Fin 0) (Fin 0) (Fin 0)\<rparr>)))
   \<and> planetData (fetchPlanetData_resolve update response s) = Some response
   \<and> (\<forall>c. rebuilt id c = c)"
proof -
  assume m: "mounted s"
  have a: "cameraState (fetchPlanetData_begin update s) = Some c
      \<and> liveControls (fetchPlanetData_begin update s) = Some (rebuilt update c)
      \<and> liveControls (fetchPlanetData_resolve update response (fetchPlanetData_begin update s)) =
          Some (rebuilt update c)
      \<and> (\<forall>c'. liveControls (fetchPlanetData_resolve update response
                  (moveCamera c' (fetchPlanetData_begin update s))) = Some (rebuilt update c))"
    if l: "liveControls s = Some c" for c
    unfolding fetchPlanetData_begin_Some [OF m l]
    using m by (simp add: fetchPlanetData_resolve_def moveCamera_def sceneEffect_Some)
  have b: "liveControls (sceneEffect update s) = Some (rebuilt update c)" if "cameraState s = Some c" for c
    using m that by (simp add: sceneEffect_Some)
  have n: "cameraState s = None \<longrightarrow>
        liveControls (sceneEffect update s) =
          Some (update (update \<lparr>position = Vector3 (Fin 0) (Fin 50) (Fin 100),
                                target = Vector3 (Fin 0) (Fin 0) (Fin 0)\<rparr>))"
    using m by (simp add: sceneEffect_None defaultCamera_def)
  have p: "planetData (fetchPlanetData_resolve update response s) = Some response"
    by (simp add: fetchPlanetData_resolve_def sceneEffect_def Let_def)
  from a b n p rebuilt_id show ?thesis
    by blast
qed

text \<open>
  The theorem with an \<open>update()\<close> that changes nothing, at a component whose camera stands
  at (3, 4, 5) looking at (1, 1, 1), and at one that has no controls and no stored camera
  state yet.
\<close>

theorem camera_state_restored_on_refresh_witness:
  "liveControls (fetchPlanetData_resolve id \<lparr>data = Map.empty, status = ''success''\<rparr>
      (fetchPlanetData_begin id
        \<lparr>planetData = None, cameraState = None, mounted = True,
         liveControls = Some \<lparr>position = Vector3 (Fin 3) (Fin 4) (Fin 5),
                               target = Vector3 (Fin 1) (Fin 1) (Fin 1)\<rparr>\<rparr>))
     = Some \<lparr>position = Vector3 (Fin 3) (Fin 4) (Fin 5), target = Vector3 (Fin 1) (Fin 1) (Fin 1)\<rparr>
   \<and> liveControls (sceneEffect id \<lparr>planetData = None, cameraState = None, mounted = True, liveControls = None\<rparr>)
     = Some \<lparr>position = Vector3 (Fin 0) (Fin 50) (Fin 100), target = Vector3 (Fin 0) (Fin 0) (Fin 0)\<rparr>"
proof -
  let ?s = "\<lparr>planetData = None, cameraState = None, mounted = True,
         liveControls = Some \<lparr>position = Vector3 (Fin 3) (Fin 4) (Fin 5),
                               target = Vector3 (Fin 1) (Fin 1) (Fin 1)\<rparr>\<rparr>"
  let ?t = "\<lparr>planetData = None, cameraState = None, mounted = True, liveControls = None\<rparr>"
  let ?cam = "\<lparr>position = Vector3 (Fin 3) (Fin 4) (Fin 5), target = Vector3 (Fin 1) (Fin 1) (Fin 1)\<rparr>"
  let ?r = "\<lparr>data = Map.empty, status = ''success''\<rparr>"
  have m: "mounted ?s" and m0: "mounted ?t"
    by simp_all
  have l: "liveControls ?s = Some ?cam"
    by simp
  have n: "cameraState ?t = None"
    by simp
  have "liveControls (fetchPlanetData_resolve id ?r (fetchPlanetData_begin id ?s)) = Some (rebuilt id ?cam)"
    using camera_state_restored_on_refresh [OF m, of id ?r] l by blast
  then have 1: "liveControls (fetchPlanetData_resolve id ?r (fetchPlanetData_begin id ?s)) = Some ?cam"
    by (simp only: rebuilt_id)
  have "liveControls (sceneEffect id ?t) =
      Some (id (id \<lparr>position = Vector3 (Fin 0) (Fin 50) (Fin 100), target = Vector3 (Fin 0) (Fin 0) (Fin 0)\<rparr>))"
    using camera_state_restored_on_refresh [OF m0, of id ?r] n by blast
  then have 2: "liveControls (sceneEffect id ?t) =
      Some \<lparr>position = Vector3 (Fin 0) (Fin 50) (Fin 100), target = Vector3 (Fin 0) (Fin 0) (Fin 0)\<rparr>"
    by (simp only: id_apply)
  from 1 2 show ?thesis
    by (rule conjI)
qed

text \<open>
  C6 as stated fails: the viewpoint of the moment of the rebuild does not survive it. With
  an \<open>update()\<close> that changes nothing, a camera that stands at (3, 4, 5) when the fetch
  starts and is moved to (7, 8, 9) while the request is pending stands at (7, 8, 9) when
  the response arrives, and at (3, 4, 5) after the rebuild the response triggers.
\<close>

theorem camera_moved_during_fetch_counterexample:
  "liveControls (moveCamera \<lparr>position = Vector3 (Fin 7) (Fin 8) (Fin 9), target = Vector3 (Fin 1) (Fin 1) (Fin 1)\<rparr>
      (fetchPlanetData_begin id
        \<lparr>planetData = None, cameraState = None, mounted = True,
         liveControls = Some \<lparr>position = Vector3 (Fin 3) (Fin 4) (Fin 5),
                               target = Vector3 (Fin 1) (Fin 1) (Fin 1)\<rparr>\<rparr>))
     = Some \<lparr>position = Vector3 (Fin 7) (Fin 8) (Fin 9), target = Vector3 (Fin 1) (Fin 1) (Fin 1)\<rparr>
   \<and> liveControls (fetchPlanetData_resolve id \<lparr>data = Map.empty, status = ''success''\<rparr>
      (moveCamera \<lparr>position = Vector3 (Fin 7) (Fin 8) (Fin 9), target = Vector3 (Fin 1) (Fin 1) (Fin 1)\<rparr>
        (fetchPlanetData_begin id
          \<lparr>planetData = None, cameraState = None, mounted = True,
           liveControls = Some \<lparr>position = Vector3 (Fin 3) (Fin 4) (Fin 5),
                                 target = Vector3 (Fin 1) (Fin 1) (Fin 1)\<rparr>\<rparr>)))
     = Some \<lparr>position = Vector3 (Fin 3) (Fin 4) (Fin 5), target = Vector3 (Fin 1) (Fin 1) (Fin 1)\<rparr>
   \<and> \<lparr>position = Vector3 (Fin 3) (Fin 4) (Fin 5), target = Vector3 (Fin 1) (Fin 1) (Fin 1)\<rparr>
     \<noteq> \<lparr>position = Vector3 (Fin 7) (Fin 8) (Fin 9), target = Vector3 (Fin 1) (Fin 1) (Fin 1)\<rparr>"
  by (simp add: fetchPlanetData_begin_def fetchPlanetData_resolve_def sceneEffect_def
      moveCamera_def defaultCamera_def Let_def)

end
